theory Spec2Isabelle
  imports Complex_Main "HOL-Library.Sublist"
begin

section \<open>SrSENet training script (train.py)\<close>

text \<open>
  The script is orchestration around framework collaborators (the dataset class, the
  data loader, the network, the loss, the optimiser, the unpickler). The embedding keeps
  the control flow of \<^verbatim>\<open>main\<close> and \<^verbatim>\<open>train\<close> as written and takes every
  collaborator as a field of an environment record. Tensors, parameter mappings,
  optimiser states and Python floats are opaque: they are the type parameters
  \<open>'t\<close>, \<open>'w\<close>, \<open>'o\<close> and \<open>'f\<close>.

  Everything the script does besides computing (printing, logging a scalar, saving a
  checkpoint) is an event; a run is the list of its events, in order, together with
  either the exception that ended it or its result.
\<close>

subsection \<open>Options, Python values, errors\<close>

text \<open>The \<^verbatim>\<open>argparse\<close> namespace \<^verbatim>\<open>opt\<close>, one field per flag (lines 16 to 32).\<close>

record 'f opts =
  use_se :: bool
  batchSize :: int
  rate :: int
  blocks :: int
  nEpochs :: int
  lr :: 'f
  step :: int
  cuda :: bool
  gpus :: int
  resume :: string
  start_epoch :: int
  threads :: int
  momentum :: 'f
  weight_decay :: 'f
  pretrained :: string
  datasets :: string

text \<open>
  The exceptions a run can end with. \<open>NoGPU\<close> is the \<^verbatim>\<open>Exception\<close> of line 44;
  the others are the Python exceptions of subscripting, attribute access and
  \<^verbatim>\<open>math.sqrt\<close> (\<^verbatim>\<open>ValueError\<close> on a negative argument, \<^verbatim>\<open>OverflowError\<close> on an
  integer beyond the range of a double), and \<open>IOError\<close> and \<open>RuntimeError\<close> are raised
  inside collaborators.
\<close>

datatype error =
    NoGPU
  | KeyError string
  | TypeError
  | AttributeError
  | IndexError
  | ValueError
  | OverflowError
  | IOError string
  | RuntimeError

text \<open>
  What \<^verbatim>\<open>torch.load\<close> can return, as far as the script looks into it: an integer,
  a parameter mapping (what \<^verbatim>\<open>state_dict()\<close> returns), a module object (which has a
  \<^verbatim>\<open>state_dict()\<close> method), a dictionary with string keys, or \<^verbatim>\<open>None\<close>.
\<close>

datatype 'w pyval =
    PInt int
  | PParams 'w
  | PModule 'w
  | PDict "(string \<times> 'w pyval) list"
  | PNone

datatype device = Cpu | CudaParallel "int list"

text \<open>
  The network object: its parameters, the training-mode flag set by
  \<^verbatim>\<open>model.train()\<close>, and where lines 82 to 87 placed it.
\<close>

record 'w model =
  params :: 'w
  training :: bool
  placed :: device

text \<open>The Adam optimiser: \<^verbatim>\<open>param_groups[0]["lr"]\<close> and its internal state.\<close>

record ('o, 'f) optimizer =
  opt_lr :: 'f
  opt_state :: 'o

text \<open>
  A \<^verbatim>\<open>DataLoader\<close>: \<^verbatim>\<open>len(training_data_loader)\<close>, and the batches that the
  \<open>k\<close>-th iteration over it yields (shuffling makes the passes differ). A batch is the
  list of tensors the dataset returns for one index, collated.
\<close>

record 't loader =
  dl_len :: nat
  dl_batches :: "nat \<Rightarrow> 't list list"

subsection \<open>Events and runs\<close>

datatype ('w, 'f) event =
    PrintOpts "'f opts"
  | NewSummaryWriter
  | ManualSeed int
  | CudaManualSeed int
  | Print string
  | PrintEpoch int 'f
  | PrintLoss int int nat 'f
  | AddScalar string 'f int
  | SaveCheckpoint "'w model" int int

type_synonym ('w, 'f, 'a) run = "('w, 'f) event list \<times> (error + 'a)"

definition emit :: "('w, 'f) event list \<Rightarrow> ('w, 'f, unit) run" where
  "emit evs = (evs, Inr ())"

definition raise :: "error \<Rightarrow> ('w, 'f, 'a) run" where
  "raise e = ([], Inl e)"

definition return :: "'a \<Rightarrow> ('w, 'f, 'a) run" where
  "return x = ([], Inr x)"

definition call :: "error + 'a \<Rightarrow> ('w, 'f, 'a) run" where
  "call r = ([], r)"

text \<open>
  Sequencing: the events of the first part, then, unless it raised, those of the second.
\<close>

definition and_then :: "('w, 'f, 'a) run \<Rightarrow> ('a \<Rightarrow> ('w, 'f, 'b) run) \<Rightarrow> ('w, 'f, 'b) run" where
  "and_then r f =
     (case r of
        (evs, Inl e) \<Rightarrow> (evs, Inl e)
      | (evs, Inr x) \<Rightarrow> (case f x of (evs', r') \<Rightarrow> (evs @ evs', r')))"

subsection \<open>The collaborators\<close>

text \<open>
  \<^item> \<open>cuda_is_available\<close>: \<^verbatim>\<open>torch.cuda.is_available()\<close>;
  \<^item> \<open>hdf5\<close>: the well-formed HDF5 dataset files, by path, each with its samples;
  \<^item> \<open>DataLoader\<close>: the loader for a dataset, \<^verbatim>\<open>num_workers\<close> and \<^verbatim>\<open>batch_size\<close>
    (with \<^verbatim>\<open>shuffle=True\<close>, under the seed 774 of line 46);
  \<^item> \<open>Net\<close>: the freshly initialised parameters of \<^verbatim>\<open>Net(blocks, rate, use_se)\<close>;
  \<^item> \<open>isfile\<close>: \<^verbatim>\<open>os.path.isfile\<close>;
  \<^item> \<open>torch_load\<close>: \<^verbatim>\<open>torch.load\<close>;
  \<^item> \<open>fits\<close>: whether a parameter mapping has the keys and shapes the model's own has,
    which is what \<^verbatim>\<open>load_state_dict\<close> requires;
  \<^item> \<open>sqrt_double\<close>: \<^verbatim>\<open>int(math.sqrt(r))\<close> for an integer \<open>r\<close> from \<open>2 ^ 52\<close> on,
    where the double-precision root, truncated, need not be the exact one, and where
    \<^verbatim>\<open>math.sqrt\<close> raises \<^verbatim>\<open>OverflowError\<close> once \<open>r\<close> is beyond the doubles;
  \<^item> \<open>Adam\<close>: the state of \<^verbatim>\<open>optim.Adam(model.parameters(), lr=opt.lr)\<close>;
  \<^item> \<open>batch_update\<close>: lines 108 to 119 and \<^verbatim>\<open>loss.data[0]\<close>: device placement of
    input and label, forward pass, loss, \<^verbatim>\<open>zero_grad\<close>, \<^verbatim>\<open>backward\<close>,
    \<^verbatim>\<open>optimizer.step()\<close>; it returns the new parameters, the new optimiser state and
    the loss value, or the exception raised on the way.
\<close>

record ('w, 'o, 't, 'f) env =
  cuda_is_available :: bool
  hdf5 :: "string \<Rightarrow> 't list list option"
  DataLoader :: "'t list list \<Rightarrow> int \<Rightarrow> int \<Rightarrow> error + 't loader"
  Net :: "int \<Rightarrow> int \<Rightarrow> bool \<Rightarrow> error + 'w"
  isfile :: "string \<Rightarrow> bool"
  torch_load :: "string \<Rightarrow> error + 'w pyval"
  fits :: "'w \<Rightarrow> 'w \<Rightarrow> bool"
  sqrt_double :: "int \<Rightarrow> error + nat"
  Adam :: "'w \<Rightarrow> 'f \<Rightarrow> 'o"
  batch_update :: "bool \<Rightarrow> 'w model \<Rightarrow> ('o, 'f) optimizer \<Rightarrow> 't \<Rightarrow> 't \<Rightarrow> error + ('w \<times> 'o \<times> 'f)"

text \<open>
  Modelled from the spec: \<^verbatim>\<open>DatasetFromHdf5\<close> (module \<^verbatim>\<open>data\<close>) is not among the
  sources. The spec's dataset adapter wraps an HDF5 file given by its path, and
  "missing or malformed file fails at construction or first access with an I/O/format
  error"; here it fails at construction.
\<close>

definition DatasetFromHdf5 :: "('w, 'o, 't, 'f) env \<Rightarrow> string \<Rightarrow> error + 't list list" where
  "DatasetFromHdf5 env path =
     (case hdf5 env path of None \<Rightarrow> Inl (IOError path) | Some samples \<Rightarrow> Inr samples)"

subsection \<open>Python primitives\<close>

text \<open>\<^verbatim>\<open>d[key]\<close> on a loaded object: only a dictionary can be subscripted by a string.\<close>

definition subscript :: "'w pyval \<Rightarrow> string \<Rightarrow> error + 'w pyval" where
  "subscript v key =
     (case v of
        PDict d \<Rightarrow> (case map_of d key of None \<Rightarrow> Inl (KeyError key) | Some x \<Rightarrow> Inr x)
      | _ \<Rightarrow> Inl TypeError)"

text \<open>\<^verbatim>\<open>v + 1\<close>.\<close>

definition plus_one :: "'w pyval \<Rightarrow> error + int" where
  "plus_one v = (case v of PInt n \<Rightarrow> Inr (n + 1) | _ \<Rightarrow> Inl TypeError)"

text \<open>\<^verbatim>\<open>v.state_dict()\<close>: only a module has the method.\<close>

definition state_dict :: "'w pyval \<Rightarrow> error + 'w pyval" where
  "state_dict v = (case v of PModule w \<Rightarrow> Inr (PParams w) | _ \<Rightarrow> Inl AttributeError)"

text \<open>
  \<^verbatim>\<open>model.load_state_dict(v)\<close>: \<open>v\<close> has to be a parameter mapping that fits the
  model; then the model's parameters are those of \<open>v\<close>.
\<close>

definition load_state_dict ::
  "('w, 'o, 't, 'f) env \<Rightarrow> 'w model \<Rightarrow> 'w pyval \<Rightarrow> error + 'w model" where
  "load_state_dict env m v =
     (case v of
        PParams w \<Rightarrow> if fits env (params m) w then Inr (m\<lparr>params := w\<rparr>) else Inl RuntimeError
      | _ \<Rightarrow> Inl AttributeError)"

text \<open>
  \<^verbatim>\<open>int(math.sqrt(r))\<close> for an integer \<open>r\<close>. \<^verbatim>\<open>math.sqrt\<close> raises
  \<^verbatim>\<open>ValueError\<close> on a negative argument. Below \<open>2 ^ 52\<close> the argument is a double, its
  correctly rounded root lies on the same side of every integer as the exact root, and
  the truncation is the largest \<open>k\<close> with \<open>k * k \<le> r\<close>, found here by searching
  downwards from \<open>r\<close>. From \<open>2 ^ 52\<close> on the rounding can reach the next integer
  (at \<open>2 ^ 52 + 2 ^ 27\<close> it does), so there the result is the collaborator's.
\<close>

primrec sqrt_below :: "nat \<Rightarrow> nat \<Rightarrow> nat" where
  "sqrt_below r 0 = 0"
| "sqrt_below r (Suc k) = (if Suc k * Suc k \<le> r then Suc k else sqrt_below r k)"

definition int_sqrt :: "('w, 'o, 't, 'f) env \<Rightarrow> int \<Rightarrow> error + nat" where
  "int_sqrt env r =
     (if r < 0 then Inl ValueError
      else if r < 2 ^ 52 then Inr (sqrt_below (nat r) (nat r))
      else sqrt_double env r)"

text \<open>\<^verbatim>\<open>batch[i]\<close> for a non-negative \<open>i\<close>.\<close>

definition item :: "'t list \<Rightarrow> nat \<Rightarrow> error + 't" where
  "item batch i = (if i < length batch then Inr (batch ! i) else Inl IndexError)"

text \<open>The quoted path of the \<^verbatim>\<open>'{}'\<close> in the messages of lines 65 to 79.\<close>

definition quoted :: "string \<Rightarrow> string" where
  "quoted path = [CHR 0x27] @ path @ [CHR 0x27]"

subsection \<open>train (lines 97 to 126)\<close>

text \<open>Lines 104 to 106: the input and the label of a batch.\<close>

definition input_label :: "('w, 'o, 't, 'f) env \<Rightarrow> int \<Rightarrow> 't list \<Rightarrow> error + ('t \<times> 't)" where
  "input_label env r batch =
     (case item batch 0 of
        Inl e \<Rightarrow> Inl e
      | Inr input \<Rightarrow>
          (case int_sqrt env r of
             Inl e \<Rightarrow> Inl e
           | Inr i \<Rightarrow> (case item batch i of Inl e \<Rightarrow> Inl e | Inr label \<Rightarrow> Inr (input, label))))"

text \<open>
  The loop of line 102 over the batches that are left, \<open>iteration\<close> being the number of
  the first of them; \<open>n\<close> is \<^verbatim>\<open>len(training_data_loader)\<close>.
\<close>

fun train_batches ::
  "('w, 'o, 't, 'f) env \<Rightarrow> 'f opts \<Rightarrow> nat \<Rightarrow> int \<Rightarrow> int \<Rightarrow> 't list list \<Rightarrow>
   'w model \<times> ('o, 'f) optimizer \<Rightarrow> ('w, 'f, 'w model \<times> ('o, 'f) optimizer) run" where
  "train_batches env opt n epoch iteration [] st = return st"
| "train_batches env opt n epoch iteration (batch # rest) (m, optimizer) =
     and_then (call (input_label env (rate opt) batch)) (\<lambda>(input, label).
     and_then (call (batch_update env (cuda opt) m optimizer input label)) (\<lambda>(w, s, loss).
     and_then (emit (if iteration mod 10 = 0
                     then [PrintLoss epoch iteration n loss,
                           AddScalar ''loss'' loss (int n * epoch + iteration)]
                     else [])) (\<lambda>_.
     train_batches env opt n epoch (iteration + 1) rest
       (m\<lparr>params := w\<rparr>, optimizer\<lparr>opt_state := s\<rparr>))))"

text \<open>
  \<open>train\<close>; \<open>pass\<close> counts the earlier iterations over the loader, and \<open>opt\<close> is the
  global \<^verbatim>\<open>opt\<close>.
\<close>

definition train ::
  "('w, 'o, 't, 'f) env \<Rightarrow> 'f opts \<Rightarrow> nat \<Rightarrow> 't loader \<Rightarrow> ('o, 'f) optimizer \<Rightarrow> 'w model \<Rightarrow> int \<Rightarrow>
   ('w, 'f, 'w model \<times> ('o, 'f) optimizer) run" where
  "train env opt pass training_data_loader optimizer m epoch =
     and_then (emit [PrintEpoch epoch (opt_lr optimizer)]) (\<lambda>_.
     and_then (train_batches env opt (dl_len training_data_loader) epoch 1
                 (dl_batches training_data_loader pass) (m\<lparr>training := True\<rparr>, optimizer))
       (\<lambda>(m', optimizer').
     and_then (emit [SaveCheckpoint m' (rate opt) epoch]) (\<lambda>_.
     return (m', optimizer'))))"

subsection \<open>main (lines 35 to 94)\<close>

text \<open>Lines 63 to 70; the block assigns \<^verbatim>\<open>opt.start_epoch\<close>, so it returns \<open>opt\<close> too.\<close>

definition resume_block ::
  "('w, 'o, 't, 'f) env \<Rightarrow> 'f opts \<Rightarrow> 'w model \<Rightarrow> ('w, 'f, 'f opts \<times> 'w model) run" where
  "resume_block env opt m =
     (if resume opt \<noteq> []
      then if isfile env (resume opt)
        then
          and_then (emit [Print (''=> loading checkpoint '' @ quoted (resume opt))]) (\<lambda>_.
          and_then (call (torch_load env (resume opt))) (\<lambda>checkpoint.
          and_then (call (subscript checkpoint ''epoch'')) (\<lambda>epoch.
          and_then (call (plus_one epoch)) (\<lambda>next_epoch.
          and_then (call (subscript checkpoint ''state_dict'')) (\<lambda>sd.
          and_then (call (load_state_dict env m sd)) (\<lambda>m'.
          return (opt\<lparr>start_epoch := next_epoch\<rparr>, m')))))))
        else
          and_then (emit [Print (''=> no checkpoint found at '' @ quoted (resume opt))]) (\<lambda>_.
          return (opt, m))
      else return (opt, m))"

text \<open>Lines 73 to 79.\<close>

definition pretrained_block ::
  "('w, 'o, 't, 'f) env \<Rightarrow> 'f opts \<Rightarrow> 'w model \<Rightarrow> ('w, 'f, 'w model) run" where
  "pretrained_block env opt m =
     (if pretrained opt \<noteq> []
      then if isfile env (pretrained opt)
        then
          and_then (emit [Print (''=> loading model '' @ quoted (pretrained opt))]) (\<lambda>_.
          and_then (call (torch_load env (pretrained opt))) (\<lambda>weights.
          and_then (call (subscript weights ''state_dict'')) (\<lambda>nested.
          and_then (call (state_dict nested)) (\<lambda>sd.
          call (load_state_dict env m sd)))))
        else
          and_then (emit [Print (''=> no model found at '' @ quoted (pretrained opt))]) (\<lambda>_.
          return m)
      else return m)"

text \<open>
  Lines 93 and 94: the loop over \<^verbatim>\<open>range(opt.start_epoch, opt.nEpochs + 1)\<close>, given as
  the list of the epochs that are left.
\<close>

fun for_epochs ::
  "('w, 'o, 't, 'f) env \<Rightarrow> 'f opts \<Rightarrow> 't loader \<Rightarrow> nat \<Rightarrow> int list \<Rightarrow>
   'w model \<times> ('o, 'f) optimizer \<Rightarrow> ('w, 'f, 'w model \<times> ('o, 'f) optimizer) run" where
  "for_epochs env opt training_data_loader pass [] st = return st"
| "for_epochs env opt training_data_loader pass (epoch # epochs) (m, optimizer) =
     and_then (train env opt pass training_data_loader optimizer m epoch) (\<lambda>st'.
     for_epochs env opt training_data_loader (Suc pass) epochs st')"

text \<open>
  Lines 37 to 90: everything before the training loop. It ends with the options (whose
  \<^verbatim>\<open>start_epoch\<close> the resume block may have assigned), the loader, the model and the
  optimiser.
\<close>

definition initialise ::
  "('w, 'o, 't, 'f) env \<Rightarrow> 'f opts \<Rightarrow>
   ('w, 'f, 'f opts \<times> 't loader \<times> 'w model \<times> ('o, 'f) optimizer) run" where
  "initialise env opt =
     and_then (emit [PrintOpts opt, NewSummaryWriter]) (\<lambda>_.
     if cuda opt \<and> \<not> cuda_is_available env then raise NoGPU
     else
     and_then (emit ([ManualSeed 774] @ (if cuda opt then [CudaManualSeed 774] else []))) (\<lambda>_.
     and_then (emit [Print ''===> Loading datasets'']) (\<lambda>_.
     and_then (call (DatasetFromHdf5 env (datasets opt))) (\<lambda>train_set.
     and_then (call (DataLoader env train_set (threads opt) (batchSize opt))) (\<lambda>training_data_loader.
     and_then (emit [Print ''===> Building model'']) (\<lambda>_.
     and_then (call (Net env (blocks opt) (rate opt) (use_se opt))) (\<lambda>w.
     and_then (resume_block env opt \<lparr>params = w, training = True, placed = Cpu\<rparr>) (\<lambda>(opt1, m1).
     and_then (pretrained_block env opt1 m1) (\<lambda>m2.
     and_then (emit [Print ''===> Setting GPU'']) (\<lambda>_.
     and_then (return (m2\<lparr>placed := (if cuda opt1 then CudaParallel [0..gpus opt1 - 1] else Cpu)\<rparr>)) (\<lambda>m3.
     and_then (emit [Print ''===> Setting Optimizer'']) (\<lambda>_.
     and_then (return \<lparr>opt_lr = lr opt1, opt_state = Adam env (params m3) (lr opt1)\<rparr>) (\<lambda>optimizer.
     return (opt1, training_data_loader, m3, optimizer))))))))))))))"

text \<open>\<open>main\<close>: the initialisation, then lines 92 to 94.\<close>

definition main ::
  "('w, 'o, 't, 'f) env \<Rightarrow> 'f opts \<Rightarrow> ('w, 'f, 'w model \<times> ('o, 'f) optimizer) run" where
  "main env opt =
     and_then (initialise env opt) (\<lambda>(opt1, training_data_loader, m, optimizer).
     and_then (emit [Print ''===> Training'']) (\<lambda>_.
     for_epochs env opt1 training_data_loader 0 [start_epoch opt1..nEpochs opt1]
       (m, optimizer)))"

subsection \<open>Reading a trace\<close>

text \<open>The epochs entered (the first line of \<open>train\<close> prints the epoch).\<close>

fun epochs_entered :: "('w, 'f) event list \<Rightarrow> int list" where
  "epochs_entered [] = []"
| "epochs_entered (PrintEpoch e l # evs) = e # epochs_entered evs"
| "epochs_entered (ev # evs) = epochs_entered evs"

text \<open>The epochs of the checkpoints saved.\<close>

fun epochs_saved :: "('w, 'f) event list \<Rightarrow> int list" where
  "epochs_saved [] = []"
| "epochs_saved (SaveCheckpoint m r e # evs) = e # epochs_saved evs"
| "epochs_saved (ev # evs) = epochs_saved evs"

text \<open>The stream name and the step index of every scalar logged.\<close>

fun scalars :: "('w, 'f) event list \<Rightarrow> (string \<times> int) list" where
  "scalars [] = []"
| "scalars (AddScalar name v s # evs) = (name, s) # scalars evs"
| "scalars (ev # evs) = scalars evs"

text \<open>Every scalar logged: the stream name, the value and the step index.\<close>

fun scalar_events :: "('w, 'f) event list \<Rightarrow> (string \<times> 'f \<times> int) list" where
  "scalar_events [] = []"
| "scalar_events (AddScalar name v s # evs) = (name, v, s) # scalar_events evs"
| "scalar_events (ev # evs) = scalar_events evs"

text \<open>
  What \<open>train\<close> logs in an epoch whose loop runs \<open>k\<close> iterations numbered from
  \<open>iteration\<close>: the stream \<^verbatim>\<open>loss\<close>, at every iteration divisible by 10.
\<close>

definition expected_scalars :: "nat \<Rightarrow> int \<Rightarrow> int \<Rightarrow> nat \<Rightarrow> (string \<times> int) list" where
  "expected_scalars n epoch iteration k =
     map (\<lambda>i. (''loss'', int n * epoch + i))
       (filter (\<lambda>i. i mod 10 = 0) [iteration..iteration + int k - 1])"

text \<open>
  The losses that \<open>batch_update\<close> returns for the batches of an epoch, in order, each
  update starting from the model and the optimiser the one before left; the list ends
  where a batch raises.
\<close>

fun batch_losses ::
  "('w, 'o, 't, 'f) env \<Rightarrow> 'f opts \<Rightarrow> 't list list \<Rightarrow> 'w model \<times> ('o, 'f) optimizer \<Rightarrow> 'f list" where
  "batch_losses env opt [] st = []"
| "batch_losses env opt (batch # rest) (m, optimizer) =
     (case input_label env (rate opt) batch of
        Inl e \<Rightarrow> []
      | Inr (input, label) \<Rightarrow>
          (case batch_update env (cuda opt) m optimizer input label of
             Inl e \<Rightarrow> []
           | Inr (w, s, loss) \<Rightarrow>
               loss # batch_losses env opt rest (m\<lparr>params := w\<rparr>, optimizer\<lparr>opt_state := s\<rparr>)))"

text \<open>
  What \<open>train\<close> logs, values included, in an epoch whose batches numbered from
  \<open>iteration\<close> have these losses: at every iteration divisible by 10, the loss of that
  iteration.
\<close>

definition expected_events :: "nat \<Rightarrow> int \<Rightarrow> int \<Rightarrow> 'f list \<Rightarrow> (string \<times> 'f \<times> int) list" where
  "expected_events n epoch iteration losses =
     map (\<lambda>(i, loss). (''loss'', loss, int n * epoch + i))
       (filter (\<lambda>(i, loss). i mod 10 = 0)
          (zip [iteration..iteration + int (length losses) - 1] losses))"

text \<open>
  The loader invariant of the framework: every iteration over a loader yields
  \<^verbatim>\<open>len(loader)\<close> batches.
\<close>

definition loader_ok :: "'t loader \<Rightarrow> bool" where
  "loader_ok ld \<longleftrightarrow> (\<forall>pass. length (dl_batches ld pass) = dl_len ld)"

text \<open>
  Two conditions under which no batch raises: the collaborator \<open>batch_update\<close> never
  does, and every batch of the loader has the tensors that lines 104 to 106 index.
\<close>

definition updates_succeed :: "('w, 'o, 't, 'f) env \<Rightarrow> bool" where
  "updates_succeed env \<longleftrightarrow>
     (\<forall>on_cuda m optimizer input label. \<not> isl (batch_update env on_cuda m optimizer input label))"

definition batches_fit :: "('w, 'o, 't, 'f) env \<Rightarrow> int \<Rightarrow> 't loader \<Rightarrow> bool" where
  "batches_fit env r ld \<longleftrightarrow>
     (\<forall>pass. \<forall>batch \<in> set (dl_batches ld pass). \<not> isl (input_label env r batch))"

subsection \<open>A small concrete run\<close>

text \<open>
  An environment over natural numbers in place of tensors and floats: one dataset file,
  a resume-shaped checkpoint of epoch 3, a pretrained-shaped checkpoint, a loader of 20
  batches of three tensors each, and updates that never fail, count themselves in the
  parameters and return a loss that depends on the batch and on the parameters.
\<close>

definition demo_loader :: "nat loader" where
  "demo_loader = \<lparr>dl_len = 20, dl_batches = (\<lambda>pass. replicate 20 [pass, 1, 2])\<rparr>"

definition demo_env :: "(nat, nat, nat, nat) env" where
  "demo_env =
     \<lparr>cuda_is_available = False,
      hdf5 = (\<lambda>path. if path = ''train.h5'' then Some [[0, 1, 2]] else None),
      DataLoader = (\<lambda>samples workers batch_size. Inr demo_loader),
      Net = (\<lambda>b r se. Inr 0),
      isfile = (\<lambda>path. path = ''ckpt.pth'' \<or> path = ''pre.pth''),
      torch_load = (\<lambda>path.
        if path = ''ckpt.pth'' then Inr (PDict [(''epoch'', PInt 3), (''state_dict'', PParams 7)])
        else if path = ''pre.pth'' then Inr (PDict [(''epoch'', PInt 5), (''state_dict'', PModule 9)])
        else Inl (IOError path)),
      fits = (\<lambda>w w'. True),
      sqrt_double = (\<lambda>r. Inl OverflowError),
      Adam = (\<lambda>w rate. 0),
      batch_update = (\<lambda>on_cuda m optimizer input label.
        Inr (Suc (params m), Suc (opt_state optimizer), input + label + params m))\<rparr>"

definition demo_opts :: "nat opts" where
  "demo_opts =
     \<lparr>use_se = False, batchSize = 64, rate = 2, blocks = 8, nEpochs = 2, lr = 1, step = 100,
      cuda = False, gpus = 4, resume = [], start_epoch = 1, threads = 1, momentum = 9,
      weight_decay = 1, pretrained = [], datasets = ''train.h5''\<rparr>"

definition demo_model :: "nat model" where
  "demo_model = \<lparr>params = 0, training = True, placed = Cpu\<rparr>"

section \<open>Properties\<close>

subsection \<open>Runs and traces\<close>

lemma and_then_emit: "and_then (emit evs) f = (evs @ fst (f ()), snd (f ()))"
  by (simp add: and_then_def emit_def split: prod.splits)

lemma and_then_return: "and_then (return x) f = f x"
  by (simp add: and_then_def return_def split: prod.splits)

lemma and_then_raise: "and_then (raise e) f = raise e"
  by (simp add: and_then_def raise_def)

lemma and_then_call_Inl: "and_then (call (Inl e)) f = raise e"
  by (simp add: and_then_def call_def raise_def)

lemma and_then_call_Inr: "and_then (call (Inr x)) f = f x"
  by (simp add: and_then_def call_def split: prod.splits)

lemma fst_and_then:
  "fst (and_then r f) = fst r @ (case snd r of Inl e \<Rightarrow> [] | Inr x \<Rightarrow> fst (f x))"
  by (cases r) (simp add: and_then_def split: sum.splits prod.splits)

lemma snd_and_then:
  "snd (and_then r f) = (case snd r of Inl e \<Rightarrow> Inl e | Inr x \<Rightarrow> snd (f x))"
  by (cases r) (simp add: and_then_def split: sum.splits prod.splits)

lemma epochs_entered_append: "epochs_entered (xs @ ys) = epochs_entered xs @ epochs_entered ys"
  by (induction xs rule: epochs_entered.induct) simp_all

lemma epochs_saved_append: "epochs_saved (xs @ ys) = epochs_saved xs @ epochs_saved ys"
  by (induction xs rule: epochs_saved.induct) simp_all

lemma scalars_append: "scalars (xs @ ys) = scalars xs @ scalars ys"
  by (induction xs rule: scalars.induct) simp_all

lemmas run_simps = and_then_emit and_then_return and_then_raise and_then_call_Inl and_then_call_Inr

lemma fst_simps: "fst (emit evs) = evs" "fst (call r) = []" "fst (return x) = []" "fst (raise e) = []"
  by (simp_all add: emit_def call_def return_def raise_def)

lemma snd_simps: "snd (emit evs) = Inr ()" "snd (call r) = r" "snd (return x) = Inr x" "snd (raise e) = Inl e"
  by (simp_all add: emit_def call_def return_def raise_def)


lemma resume_block_quiet:
  "epochs_entered (fst (resume_block env opt m)) = [] \<and>
   epochs_saved (fst (resume_block env opt m)) = [] \<and>
   scalars (fst (resume_block env opt m)) = []"
  by (simp add: resume_block_def fst_and_then fst_simps snd_simps split: sum.splits)

lemma pretrained_block_quiet:
  "epochs_entered (fst (pretrained_block env opt m)) = [] \<and>
   epochs_saved (fst (pretrained_block env opt m)) = [] \<and>
   scalars (fst (pretrained_block env opt m)) = []"
  by (simp add: pretrained_block_def fst_and_then fst_simps snd_simps split: sum.splits)

lemma initialise_quiet:
  "epochs_entered (fst (initialise env opt)) = [] \<and>
   epochs_saved (fst (initialise env opt)) = [] \<and>
   scalars (fst (initialise env opt)) = []"
  by (simp add: initialise_def fst_and_then fst_simps snd_simps
      epochs_entered_append epochs_saved_append scalars_append
      resume_block_quiet pretrained_block_quiet split: sum.splits prod.splits)

lemma initialise_opts:
  "snd (initialise env opt) = Inr (opt1, ld, m, optimizer) \<Longrightarrow>
   \<exists>w m1. Net env (blocks opt) (rate opt) (use_se opt) = Inr w \<and>
     snd (resume_block env opt \<lparr>params = w, training = True, placed = Cpu\<rparr>) = Inr (opt1, m1)"
  by (auto simp add: initialise_def snd_and_then snd_simps split: sum.splits prod.splits if_splits)

subsection \<open>The loops\<close>

lemma train_batches_quiet:
  "epochs_entered (fst (train_batches env opt n epoch iteration batches st)) = [] \<and>
   epochs_saved (fst (train_batches env opt n epoch iteration batches st)) = []"
proof (induction batches arbitrary: iteration st)
  case Nil
  show ?case by (simp add: fst_simps)
next
  case (Cons batch rest)
  obtain m optimizer where st: "st = (m, optimizer)" by (cases st)
  show ?case
    by (simp add: st fst_and_then fst_simps snd_simps Cons
        epochs_entered_append epochs_saved_append split: sum.splits prod.splits)
qed


lemma expected_scalars_0: "expected_scalars n epoch iteration 0 = []"
  by (simp add: expected_scalars_def)

lemma expected_scalars_Suc:
  "expected_scalars n epoch iteration (Suc k) =
     (if iteration mod 10 = 0 then [(''loss'', int n * epoch + iteration)] else [])
     @ expected_scalars n epoch (iteration + 1) k"
proof -
  have "[iteration..iteration + int (Suc k) - 1] = iteration # [iteration + 1..iteration + 1 + int k - 1]"
    by (subst upto_rec1) simp_all
  then show ?thesis by (simp add: expected_scalars_def)
qed

lemma train_batches_scalars:
  "prefix (scalars (fst (train_batches env opt n epoch iteration batches st)))
     (expected_scalars n epoch iteration (length batches)) \<and>
   (\<not> isl (snd (train_batches env opt n epoch iteration batches st)) \<longrightarrow>
      scalars (fst (train_batches env opt n epoch iteration batches st))
        = expected_scalars n epoch iteration (length batches))"
proof (induction batches arbitrary: iteration st)
  case Nil
  show ?case by (simp add: fst_simps expected_scalars_0)
next
  case (Cons batch rest)
  obtain m optimizer where st: "st = (m, optimizer)" by (cases st)
  show ?case
    by (simp add: st fst_and_then snd_and_then fst_simps snd_simps Cons expected_scalars_Suc
        scalars_append split: sum.splits prod.splits)
qed

lemma train_entered:
  "epochs_entered (fst (train env opt pass ld optimizer m epoch)) = [epoch]"
  by (simp add: train_def fst_and_then fst_simps snd_simps epochs_entered_append
      train_batches_quiet split: sum.splits prod.splits)

lemma train_saved:
  "epochs_saved (fst (train env opt pass ld optimizer m epoch)) =
     (case snd (train env opt pass ld optimizer m epoch) of Inl e \<Rightarrow> [] | Inr st \<Rightarrow> [epoch])"
  by (simp add: train_def fst_and_then snd_and_then fst_simps snd_simps epochs_saved_append
      train_batches_quiet split: sum.splits prod.splits)

lemma train_scalars:
  "prefix (scalars (fst (train env opt pass ld optimizer m epoch)))
     (expected_scalars (dl_len ld) epoch 1 (length (dl_batches ld pass))) \<and>
   (\<not> isl (snd (train env opt pass ld optimizer m epoch)) \<longrightarrow>
      scalars (fst (train env opt pass ld optimizer m epoch))
        = expected_scalars (dl_len ld) epoch 1 (length (dl_batches ld pass)))"
  using train_batches_scalars [of env opt "dl_len ld" epoch 1 "dl_batches ld pass"
      "(m\<lparr>training := True\<rparr>, optimizer)"]
  by (simp add: train_def fst_and_then snd_and_then fst_simps snd_simps scalars_append
      split: sum.splits prod.splits)

lemma for_epochs_entered:
  "prefix (epochs_entered (fst (for_epochs env opt ld pass epochs st))) epochs \<and>
   (\<not> isl (snd (for_epochs env opt ld pass epochs st)) \<longrightarrow>
      epochs_entered (fst (for_epochs env opt ld pass epochs st)) = epochs)"
proof (induction epochs arbitrary: pass st)
  case Nil
  show ?case by (simp add: fst_simps)
next
  case (Cons epoch rest)
  obtain m optimizer where st: "st = (m, optimizer)" by (cases st)
  show ?case
    by (simp add: st fst_and_then snd_and_then Cons epochs_entered_append train_entered
        split: sum.splits)
qed

lemma for_epochs_saved:
  "prefix (epochs_saved (fst (for_epochs env opt ld pass epochs st)))
     (epochs_entered (fst (for_epochs env opt ld pass epochs st))) \<and>
   length (epochs_entered (fst (for_epochs env opt ld pass epochs st)))
     \<le> Suc (length (epochs_saved (fst (for_epochs env opt ld pass epochs st)))) \<and>
   (\<not> isl (snd (for_epochs env opt ld pass epochs st)) \<longrightarrow>
      epochs_saved (fst (for_epochs env opt ld pass epochs st)) = epochs)"
proof (induction epochs arbitrary: pass st)
  case Nil
  show ?case by (simp add: fst_simps)
next
  case (Cons epoch rest)
  obtain m optimizer where st: "st = (m, optimizer)" by (cases st)
  show ?case
    by (simp add: st fst_and_then snd_and_then Cons epochs_entered_append epochs_saved_append
        train_entered train_saved split: sum.splits)
qed

lemma train_batches_succeeds:
  "updates_succeed env \<Longrightarrow> \<forall>batch \<in> set batches. \<not> isl (input_label env (rate opt) batch) \<Longrightarrow>
   \<not> isl (snd (train_batches env opt n epoch iteration batches st))"
proof (induction batches arbitrary: iteration st)
  case Nil
  show ?case by (simp add: snd_simps)
next
  case (Cons batch rest)
  obtain m optimizer where st: "st = (m, optimizer)" by (cases st)
  from Cons.prems have upd: "\<And>x y. \<not> isl (batch_update env (cuda opt) m optimizer x y)"
    by (simp add: updates_succeed_def)
  from Cons.prems have lab: "\<not> isl (input_label env (rate opt) batch)" by simp
  from Cons.prems have rest: "\<forall>batch \<in> set rest. \<not> isl (input_label env (rate opt) batch)" by simp
  obtain x y where xy: "input_label env (rate opt) batch = Inr (x, y)"
    using lab by (cases "input_label env (rate opt) batch") auto
  obtain w s loss where u: "batch_update env (cuda opt) m optimizer x y = Inr (w, s, loss)"
    using upd [of x y] by (cases "batch_update env (cuda opt) m optimizer x y") auto
  show ?case
    using Cons.IH [OF Cons.prems(1) rest]
    by (simp add: st xy u snd_and_then snd_simps)
qed

lemma train_succeeds:
  "updates_succeed env \<Longrightarrow> batches_fit env (rate opt) ld \<Longrightarrow>
   \<not> isl (snd (train env opt pass ld optimizer m epoch))"
  using train_batches_succeeds [of env "dl_batches ld pass" opt "dl_len ld" epoch 1
      "(m\<lparr>training := True\<rparr>, optimizer)"]
  by (auto simp add: train_def snd_and_then snd_simps batches_fit_def
      split: sum.splits prod.splits)

lemma for_epochs_succeeds:
  "updates_succeed env \<Longrightarrow> batches_fit env (rate opt) ld \<Longrightarrow>
   \<not> isl (snd (for_epochs env opt ld pass epochs st))"
proof (induction epochs arbitrary: pass st)
  case Nil
  show ?case by (simp add: snd_simps)
next
  case (Cons epoch rest)
  obtain m optimizer where st: "st = (m, optimizer)" by (cases st)
  show ?case
    using train_succeeds [OF Cons.prems, of pass optimizer m epoch] Cons.IH [OF Cons.prems]
    by (auto simp add: st snd_and_then split: sum.splits)
qed

subsection \<open>The initialisation and the run\<close>

lemma main_after_failed_initialise:
  "isl (snd (initialise env opt)) \<Longrightarrow>
   isl (snd (main env opt)) \<and> epochs_entered (fst (main env opt)) = [] \<and>
   epochs_saved (fst (main env opt)) = [] \<and> scalars (fst (main env opt)) = []"
  by (cases "snd (initialise env opt)")
    (simp_all add: main_def fst_and_then snd_and_then initialise_quiet
      epochs_entered_append epochs_saved_append scalars_append)

lemma main_after_initialise:
  "snd (initialise env opt) = Inr (opt1, ld, m, optimizer) \<Longrightarrow>
   snd (main env opt)
     = snd (for_epochs env opt1 ld 0 [start_epoch opt1..nEpochs opt1] (m, optimizer)) \<and>
   epochs_entered (fst (main env opt))
     = epochs_entered (fst (for_epochs env opt1 ld 0 [start_epoch opt1..nEpochs opt1] (m, optimizer))) \<and>
   epochs_saved (fst (main env opt))
     = epochs_saved (fst (for_epochs env opt1 ld 0 [start_epoch opt1..nEpochs opt1] (m, optimizer))) \<and>
   scalars (fst (main env opt))
     = scalars (fst (for_epochs env opt1 ld 0 [start_epoch opt1..nEpochs opt1] (m, optimizer)))"
  by (simp add: main_def fst_and_then snd_and_then fst_simps snd_simps initialise_quiet
      epochs_entered_append epochs_saved_append scalars_append)

lemma resume_block_loaded:
  assumes "resume opt \<noteq> []" "isfile env (resume opt)"
    "torch_load env (resume opt) = Inr (PDict d)" "map_of d ''epoch'' = Some (PInt e)"
  shows "resume_block env opt m =
     ([Print (''=> loading checkpoint '' @ quoted (resume opt))],
      case map_of d ''state_dict'' of
        None \<Rightarrow> Inl (KeyError ''state_dict'')
      | Some v \<Rightarrow>
          (case load_state_dict env m v of
             Inl err \<Rightarrow> Inl err
           | Inr m' \<Rightarrow> Inr (opt\<lparr>start_epoch := e + 1\<rparr>, m')))"
  using assms
  by (simp add: resume_block_def run_simps subscript_def plus_one_def return_def raise_def
      split: option.splits sum.splits)

lemma resume_block_opts:
  "snd (resume_block env opt m) = Inr (opt1, m1) \<Longrightarrow> opt1 = opt\<lparr>start_epoch := start_epoch opt1\<rparr>"
  by (auto simp add: resume_block_def snd_and_then snd_simps split: sum.splits if_splits)

lemma initialise_keeps_flags:
  assumes "snd (initialise env opt) = Inr (opt1, ld, m, optimizer)"
  shows "nEpochs opt1 = nEpochs opt \<and> rate opt1 = rate opt"
proof -
  from initialise_opts [OF assms] obtain w m1 where
    "snd (resume_block env opt \<lparr>params = w, training = True, placed = Cpu\<rparr>) = Inr (opt1, m1)"
    by blast
  from resume_block_opts [OF this] have "opt1 = opt\<lparr>start_epoch := start_epoch opt1\<rparr>" .
  then have "nEpochs opt1 = nEpochs (opt\<lparr>start_epoch := start_epoch opt1\<rparr>)"
    and "rate opt1 = rate (opt\<lparr>start_epoch := start_epoch opt1\<rparr>)" by simp_all
  then show ?thesis by simp
qed

lemma resume_block_ignores_start_epoch:
  assumes "resume opt \<noteq> []" "isfile env (resume opt)"
  shows "resume_block env (opt\<lparr>start_epoch := a\<rparr>) m = resume_block env (opt\<lparr>start_epoch := b\<rparr>) m"
  using assms by (simp add: resume_block_def)

lemma initialise_ignores_start_epoch:
  assumes "resume opt \<noteq> []" "isfile env (resume opt)"
  shows "snd (initialise env (opt\<lparr>start_epoch := a\<rparr>)) = snd (initialise env (opt\<lparr>start_epoch := b\<rparr>))"
  by (simp add: initialise_def snd_and_then snd_simps
      resume_block_ignores_start_epoch [OF assms, of a _ b])

lemma main_ignores_start_epoch:
  assumes "resume opt \<noteq> []" "isfile env (resume opt)"
  shows "snd (main env (opt\<lparr>start_epoch := a\<rparr>)) = snd (main env (opt\<lparr>start_epoch := b\<rparr>)) \<and>
    epochs_entered (fst (main env (opt\<lparr>start_epoch := a\<rparr>)))
      = epochs_entered (fst (main env (opt\<lparr>start_epoch := b\<rparr>)))"
  by (simp add: main_def fst_and_then snd_and_then epochs_entered_append initialise_quiet
      initialise_ignores_start_epoch [OF assms, of a b])

lemma train_ends_with_save:
  assumes "snd (train env opt pass ld optimizer m epoch) = Inr (m', optimizer')"
  shows "\<exists>evs. fst (train env opt pass ld optimizer m epoch)
           = evs @ [SaveCheckpoint m' (rate opt) epoch] \<and> epochs_saved evs = []"
proof -
  let ?b = "train_batches env opt (dl_len ld) epoch 1 (dl_batches ld pass)
              (m\<lparr>training := True\<rparr>, optimizer)"
  from assms have b: "snd ?b = Inr (m', optimizer')"
    by (auto simp add: train_def snd_and_then snd_simps split: sum.splits prod.splits)
  have "fst (train env opt pass ld optimizer m epoch)
      = (PrintEpoch epoch (opt_lr optimizer) # fst ?b) @ [SaveCheckpoint m' (rate opt) epoch]"
    by (simp add: train_def fst_and_then snd_and_then fst_simps snd_simps b)
  moreover have "epochs_saved (PrintEpoch epoch (opt_lr optimizer) # fst ?b) = []"
    by (simp add: train_batches_quiet)
  ultimately show ?thesis by blast
qed

subsection \<open>The scalars logged\<close>

lemma expected_scalars_mem:
  "(name, s) \<in> set (expected_scalars n epoch 1 k) \<longleftrightarrow>
     name = ''loss'' \<and> (\<exists>i. 1 \<le> i \<and> i \<le> int k \<and> i mod 10 = 0 \<and> s = int n * epoch + i)"
  by (auto simp add: expected_scalars_def)

lemma expected_scalars_sorted:
  "sorted_wrt (<) (map snd (expected_scalars n epoch iteration k))"
proof -
  have "sorted_wrt (<) (filter (\<lambda>i. i mod 10 = 0) [iteration..iteration + int k - 1])"
    by (rule sorted_wrt_filter) simp
  then show ?thesis
    by (simp add: expected_scalars_def sorted_wrt_map comp_def)
qed

lemma prefix_sorted_wrt: "prefix xs ys \<Longrightarrow> sorted_wrt P ys \<Longrightarrow> sorted_wrt P xs"
  by (auto simp add: prefix_def sorted_wrt_append)

lemma train_scalars_bounds:
  assumes "loader_ok ld"
  shows "sorted_wrt (<) (map snd (scalars (fst (train env opt pass ld optimizer m epoch)))) \<and>
    (\<forall>s \<in> set (map snd (scalars (fst (train env opt pass ld optimizer m epoch)))).
       int (dl_len ld) * epoch < s \<and> s \<le> int (dl_len ld) * epoch + int (dl_len ld))"
proof -
  let ?sc = "scalars (fst (train env opt pass ld optimizer m epoch))"
  let ?ex = "expected_scalars (dl_len ld) epoch 1 (dl_len ld)"
  from assms have len: "length (dl_batches ld pass) = dl_len ld" by (simp add: loader_ok_def)
  from train_scalars [of env opt pass ld optimizer m epoch] len
  have p: "prefix ?sc ?ex" by simp
  then have "prefix (map snd ?sc) (map snd ?ex)" by (rule map_mono_prefix)
  then have sorted: "sorted_wrt (<) (map snd ?sc)"
    using expected_scalars_sorted by (rule prefix_sorted_wrt)
  have "int (dl_len ld) * epoch < s \<and> s \<le> int (dl_len ld) * epoch + int (dl_len ld)"
    if "s \<in> set (map snd ?sc)" for s
  proof -
    from that obtain name where "(name, s) \<in> set ?sc" by auto
    with set_mono_prefix [OF p] have "(name, s) \<in> set ?ex" by blast
    then show ?thesis by (auto simp add: expected_scalars_mem)
  qed
  with sorted show ?thesis by blast
qed

lemma for_epochs_scalars_sorted:
  assumes "loader_ok ld"
  shows "sorted_wrt (<) epochs \<Longrightarrow>
    sorted_wrt (<) (map snd (scalars (fst (for_epochs env opt ld pass epochs st)))) \<and>
    (\<forall>s \<in> set (map snd (scalars (fst (for_epochs env opt ld pass epochs st)))).
       \<exists>e \<in> set epochs. int (dl_len ld) * e < s \<and> s \<le> int (dl_len ld) * e + int (dl_len ld))"
proof (induction epochs arbitrary: pass st)
  case Nil
  show ?case by (simp add: fst_simps)
next
  case (Cons epoch rest)
  obtain m optimizer where st: "st = (m, optimizer)" by (cases st)
  let ?n = "int (dl_len ld)"
  let ?t = "train env opt pass ld optimizer m epoch"
  from Cons.prems have later: "\<forall>e \<in> set rest. epoch < e" and rest: "sorted_wrt (<) rest"
    by simp_all
  note tb = train_scalars_bounds [OF assms, of env opt pass optimizer m epoch]
  show ?case
  proof (cases "snd ?t")
    case (Inl err)
    with tb show ?thesis
      by (simp add: st fst_and_then)
  next
    case (Inr st')
    let ?f = "for_epochs env opt ld (Suc pass) rest st'"
    note ih = Cons.IH [OF rest, of "Suc pass" st']
    have cross: "x < y" if x: "x \<in> set (map snd (scalars (fst ?t)))"
      and y: "y \<in> set (map snd (scalars (fst ?f)))" for x y
    proof -
      from tb x have xb: "x \<le> ?n * epoch + ?n" by blast
      from ih y obtain e where e: "e \<in> set rest" and yb: "?n * e < y" by blast
      from later e have "epoch + 1 \<le> e" by auto
      then have "?n * (epoch + 1) \<le> ?n * e" by (intro mult_left_mono) simp_all
      then have "?n * epoch + ?n \<le> ?n * e" by (simp add: algebra_simps)
      with xb yb show ?thesis by linarith
    qed
    have split: "scalars (fst (for_epochs env opt ld pass (epoch # rest) st))
        = scalars (fst ?t) @ scalars (fst ?f)"
      by (simp add: st fst_and_then Inr scalars_append)
    have "sorted_wrt (<) (map snd (scalars (fst ?t)) @ map snd (scalars (fst ?f)))"
      using tb ih cross by (simp add: sorted_wrt_append)
    moreover have "\<exists>e \<in> set (epoch # rest). ?n * e < s \<and> s \<le> ?n * e + ?n"
      if "s \<in> set (map snd (scalars (fst ?t))) \<union> set (map snd (scalars (fst ?f)))" for s
      using that tb ih by auto
    ultimately show ?thesis by (simp add: split)
  qed
qed

lemma scalar_events_append: "scalar_events (xs @ ys) = scalar_events xs @ scalar_events ys"
  by (induction xs rule: scalar_events.induct) simp_all

lemma scalars_of_events: "scalars evs = map (\<lambda>(name, v, s). (name, s)) (scalar_events evs)"
  by (induction evs rule: scalars.induct) simp_all

lemma expected_events_Nil: "expected_events n epoch iteration [] = []"
  by (simp add: expected_events_def)

lemma expected_events_Cons:
  "expected_events n epoch iteration (loss # losses) =
     (if iteration mod 10 = 0 then [(''loss'', loss, int n * epoch + iteration)] else [])
     @ expected_events n epoch (iteration + 1) losses"
proof -
  have "[iteration..iteration + int (length (loss # losses)) - 1]
      = iteration # [iteration + 1..iteration + 1 + int (length losses) - 1]"
    by (subst upto_rec1) simp_all
  then show ?thesis by (simp add: expected_events_def)
qed

lemma train_batches_step:
  assumes "input_label env (rate opt) batch = Inr (x, y)"
    and "batch_update env (cuda opt) m optimizer x y = Inr (w, u, loss)"
  shows "scalar_events (fst (train_batches env opt n epoch iteration (batch # rest) (m, optimizer)))
     = (if iteration mod 10 = 0 then [(''loss'', loss, int n * epoch + iteration)] else [])
       @ scalar_events (fst (train_batches env opt n epoch (iteration + 1) rest
           (m\<lparr>params := w\<rparr>, optimizer\<lparr>opt_state := u\<rparr>)))"
  by (simp add: assms fst_and_then fst_simps snd_simps scalar_events_append)

lemma train_batches_events:
  "scalar_events (fst (train_batches env opt n epoch iteration batches st))
     = expected_events n epoch iteration (batch_losses env opt batches st)"
proof (induction batches arbitrary: iteration st)
  case Nil
  show ?case by (simp add: fst_simps expected_events_Nil)
next
  case (Cons batch rest)
  obtain m optimizer where st: "st = (m, optimizer)" by (cases st)
  show ?case
  proof (cases "input_label env (rate opt) batch")
    case (Inl e)
    then show ?thesis by (simp add: st fst_and_then fst_simps snd_simps expected_events_Nil)
  next
    case (Inr xy)
    obtain x y where xy: "xy = (x, y)" by (cases xy)
    show ?thesis
    proof (cases "batch_update env (cuda opt) m optimizer x y")
      case (Inl e)
      then show ?thesis
        by (simp add: st Inr xy fst_and_then fst_simps snd_simps expected_events_Nil)
    next
      case upd: (Inr r)
      obtain w u loss where r: "r = (w, u, loss)" by (cases r)
      from Inr xy have lab: "input_label env (rate opt) batch = Inr (x, y)" by simp
      from upd r have up: "batch_update env (cuda opt) m optimizer x y = Inr (w, u, loss)" by simp
      show ?thesis
        unfolding st train_batches_step [OF lab up]
        by (simp add: lab up expected_events_Cons Cons.IH)
    qed
  qed
qed

lemma batch_losses_length:
  "\<not> isl (snd (train_batches env opt n epoch iteration batches st)) \<Longrightarrow>
   length (batch_losses env opt batches st) = length batches"
proof (induction batches arbitrary: iteration st)
  case Nil
  show ?case by simp
next
  case (Cons batch rest)
  obtain m optimizer where st: "st = (m, optimizer)" by (cases st)
  from Cons.prems show ?case
    by (auto simp add: st snd_and_then snd_simps Cons.IH split: sum.splits prod.splits)
qed

lemma train_events:
  "scalar_events (fst (train env opt pass ld optimizer m epoch))
     = expected_events (dl_len ld) epoch 1
         (batch_losses env opt (dl_batches ld pass) (m\<lparr>training := True\<rparr>, optimizer))"
  by (simp add: train_def fst_and_then fst_simps snd_simps scalar_events_append
      train_batches_events split: sum.splits prod.splits)

lemma train_losses_length:
  "\<not> isl (snd (train env opt pass ld optimizer m epoch)) \<Longrightarrow>
   length (batch_losses env opt (dl_batches ld pass) (m\<lparr>training := True\<rparr>, optimizer))
     = length (dl_batches ld pass)"
  using batch_losses_length [of env opt "dl_len ld" epoch 1 "dl_batches ld pass"
      "(m\<lparr>training := True\<rparr>, optimizer)"]
  by (auto simp add: train_def snd_and_then snd_simps split: sum.splits prod.splits)

lemma ex_less_Suc: "(\<exists>j < Suc n. P j) \<longleftrightarrow> P 0 \<or> (\<exists>j < n. P (Suc j))"
proof
  assume "\<exists>j < Suc n. P j"
  then obtain j where "j < Suc n" "P j" by blast
  then show "P 0 \<or> (\<exists>j < n. P (Suc j))" by (cases j) auto
next
  assume "P 0 \<or> (\<exists>j < n. P (Suc j))"
  then show "\<exists>j < Suc n. P j" by auto
qed

lemma expected_events_mem_from:
  "(name, v, s) \<in> set (expected_events n epoch iteration losses) \<longleftrightarrow>
     name = ''loss'' \<and>
     (\<exists>j < length losses. (iteration + int j) mod 10 = 0 \<and>
        s = int n * epoch + (iteration + int j) \<and> v = losses ! j)"
proof (induction losses arbitrary: iteration)
  case Nil
  show ?case by (simp add: expected_events_Nil)
next
  case (Cons l ls)
  let ?Q = "\<lambda>j. (iteration + int j) mod 10 = 0 \<and>
        s = int n * epoch + (iteration + int j) \<and> v = (l # ls) ! j"
  have len: "length (l # ls) = Suc (length ls)" by simp
  have split: "(\<exists>j < length (l # ls). ?Q j) \<longleftrightarrow> ?Q 0 \<or> (\<exists>j < length ls. ?Q (Suc j))"
    unfolding len by (rule ex_less_Suc)
  have shift: "iteration + int (Suc j) = iteration + 1 + int j" for j by simp
  have rest: "(name, v, s) \<in> set (expected_events n epoch (iteration + 1) ls) \<longleftrightarrow>
      name = ''loss'' \<and> (\<exists>j < length ls. ?Q (Suc j))"
    by (simp only: Cons.IH shift nth_Cons_Suc)
  have first: "(name, v, s) \<in> set (if iteration mod 10 = 0
        then [(''loss'', l, int n * epoch + iteration)] else []) \<longleftrightarrow>
      name = ''loss'' \<and> ?Q 0"
    by (cases "iteration mod 10 = 0") auto
  have "(name, v, s) \<in> set (expected_events n epoch iteration (l # ls)) \<longleftrightarrow>
      (name, v, s) \<in> set (if iteration mod 10 = 0
        then [(''loss'', l, int n * epoch + iteration)] else []) \<or>
      (name, v, s) \<in> set (expected_events n epoch (iteration + 1) ls)"
    by (simp only: expected_events_Cons set_append Un_iff)
  also have "\<dots> \<longleftrightarrow> name = ''loss'' \<and> (?Q 0 \<or> (\<exists>j < length ls. ?Q (Suc j)))"
    unfolding first rest by blast
  finally show ?case unfolding split .
qed

subsection \<open>The integer square root\<close>

lemma sqrt_below_le: "sqrt_below r k \<le> k"
  by (induction k) auto

lemma sqrt_below_sq: "sqrt_below r k * sqrt_below r k \<le> r"
  by (induction k) auto

lemma sqrt_below_max: "j \<le> k \<Longrightarrow> j * j \<le> r \<Longrightarrow> j \<le> sqrt_below r k"
proof (induction k)
  case 0
  then show ?case by simp
next
  case (Suc k)
  then show ?case by (cases "j = Suc k") auto
qed

lemma sqrt_below_floor: "sqrt_below n n = nat \<lfloor>sqrt (real n)\<rfloor>"
proof -
  define s where "s = sqrt_below n n"
  have lo: "s * s \<le> n" unfolding s_def by (rule sqrt_below_sq)
  have hi: "n < Suc s * Suc s"
  proof (rule ccontr)
    assume "\<not> n < Suc s * Suc s"
    then have sq: "Suc s * Suc s \<le> n" by simp
    have "Suc s \<le> Suc s * Suc s" by simp
    with sq have "Suc s \<le> n" by linarith
    from sqrt_below_max [OF this sq] show False by (simp add: s_def)
  qed
  have "(real s)\<^sup>2 \<le> real n"
    using lo by (metis of_nat_le_iff of_nat_mult power2_eq_square)
  then have a: "real s \<le> sqrt (real n)" by (rule real_le_rsqrt)
  have "real n < (real (Suc s))\<^sup>2"
    using hi by (metis of_nat_less_iff of_nat_mult power2_eq_square)
  then have b: "sqrt (real n) < real (Suc s)"
    by (intro real_less_lsqrt) simp_all
  have "\<lfloor>sqrt (real n)\<rfloor> = int s"
    using a b by (intro floor_unique) simp_all
  then show ?thesis by (simp add: s_def)
qed

lemma int_sqrt_exact:
  "0 \<le> r \<Longrightarrow> r < 2 ^ 52 \<Longrightarrow> int_sqrt env r = Inr (sqrt_below (nat r) (nat r))"
  by (simp add: int_sqrt_def)

lemma sqrt_below_small: "sqrt_below 2 2 = 1" "sqrt_below 3 3 = 1" "sqrt_below 4 4 = 2"
  by (simp_all add: eval_nat_numeral)

lemma int_sqrt_small: "int_sqrt env 2 = Inr 1" "int_sqrt env 3 = Inr 1" "int_sqrt env 4 = Inr 2"
  using int_sqrt_exact [of 2 env] int_sqrt_exact [of 3 env] int_sqrt_exact [of 4 env]
  by (simp_all add: sqrt_below_small)

subsection \<open>The concrete run\<close>

lemma demo_updates_succeed: "updates_succeed demo_env"
  by (simp add: updates_succeed_def demo_env_def)

lemma demo_batches_fit: "batches_fit demo_env 2 demo_loader"
  by (simp add: batches_fit_def demo_loader_def input_label_def item_def int_sqrt_small)

lemma demo_loader_ok: "loader_ok demo_loader"
  by (simp add: loader_ok_def demo_loader_def)

lemma demo_initialise_resumed:
  "snd (initialise demo_env (demo_opts\<lparr>resume := ''ckpt.pth'', nEpochs := 5\<rparr>)) =
     Inr (demo_opts\<lparr>resume := ''ckpt.pth'', nEpochs := 5, start_epoch := 4\<rparr>, demo_loader,
          \<lparr>params = 7, training = True, placed = Cpu\<rparr>, \<lparr>opt_lr = 1, opt_state = 0\<rparr>)"
  by (simp add: initialise_def demo_env_def demo_opts_def snd_and_then snd_simps
      DatasetFromHdf5_def resume_block_def pretrained_block_def subscript_def plus_one_def
      load_state_dict_def)

lemma demo_initialise:
  "snd (initialise demo_env demo_opts) =
     Inr (demo_opts, demo_loader,
          \<lparr>params = 0, training = True, placed = Cpu\<rparr>, \<lparr>opt_lr = 1, opt_state = 0\<rparr>)"
  by (simp add: initialise_def demo_env_def demo_opts_def snd_and_then snd_simps
      DatasetFromHdf5_def resume_block_def pretrained_block_def)

lemma demo_batch_losses:
  "batch_losses demo_env demo_opts (replicate k [p, Suc 0, 2]) (m, optimizer)
     = map (\<lambda>j. Suc (p + params m + j)) [0..<k]"
proof (induction k arbitrary: m optimizer)
  case 0
  show ?case by simp
next
  case (Suc k)
  have lab: "input_label demo_env (rate demo_opts) [p, Suc 0, 2] = Inr (p, Suc 0)"
    by (simp add: demo_opts_def input_label_def item_def int_sqrt_small)
  have upd: "batch_update demo_env (cuda demo_opts) m optimizer p (Suc 0)
      = Inr (Suc (params m), Suc (opt_state optimizer), Suc (p + params m))"
    by (simp add: demo_env_def)
  show ?case
    by (simp add: lab upd Suc.IH map_upt_Suc del: upt_Suc)
qed

subsection \<open>Environment errors\<close>

text \<open>
  C5. If \<^verbatim>\<open>--cuda\<close> is requested and no CUDA device is available, the run ends with
  the exception of line 44 after printing the options and creating the summary writer:
  the dataset is not loaded, the model is not built and no epoch is entered.
\<close>

theorem no_gpu_raises_first:
  "cuda opt \<Longrightarrow> \<not> cuda_is_available env \<Longrightarrow>
   main env opt = ([PrintOpts opt, NewSummaryWriter], Inl NoGPU)"
  by (simp add: main_def initialise_def emit_def raise_def and_then_def)

theorem no_gpu_raises_first_witness:
  "main demo_env (demo_opts\<lparr>cuda := True\<rparr>)
     = ([PrintOpts (demo_opts\<lparr>cuda := True\<rparr>), NewSummaryWriter], Inl NoGPU)"
  using no_gpu_raises_first [of "demo_opts\<lparr>cuda := True\<rparr>" demo_env]
  by (simp add: demo_env_def)

text \<open>
  C8. With no well-formed dataset file at the path of \<^verbatim>\<open>--datasets\<close>, the run ends
  with an exception and enters no epoch: unless the CUDA check has already raised, the
  dataset constructor raises right after the message of line 53.
\<close>

theorem missing_dataset_fails_before_training:
  "hdf5 env (datasets opt) = None \<Longrightarrow>
   isl (snd (main env opt)) \<and> epochs_entered (fst (main env opt)) = [] \<and>
   (\<not> (cuda opt \<and> \<not> cuda_is_available env) \<longrightarrow>
      main env opt =
        ([PrintOpts opt, NewSummaryWriter, ManualSeed 774]
           @ (if cuda opt then [CudaManualSeed 774] else [])
           @ [Print ''===> Loading datasets''],
         Inl (IOError (datasets opt))))"
proof -
  assume none: "hdf5 env (datasets opt) = None"
  have failed: "isl (snd (initialise env opt))"
    by (simp add: initialise_def snd_and_then snd_simps DatasetFromHdf5_def none)
  have "main env opt =
        ([PrintOpts opt, NewSummaryWriter, ManualSeed 774]
           @ (if cuda opt then [CudaManualSeed 774] else [])
           @ [Print ''===> Loading datasets''],
         Inl (IOError (datasets opt)))"
    if "\<not> (cuda opt \<and> \<not> cuda_is_available env)"
    using that
    by (cases "cuda opt")
      (simp_all add: main_def initialise_def DatasetFromHdf5_def none emit_def call_def and_then_def)
  with main_after_failed_initialise [OF failed] show ?thesis by simp
qed

theorem missing_dataset_fails_before_training_witness:
  "main demo_env (demo_opts\<lparr>datasets := ''none.h5''\<rparr>) =
     ([PrintOpts (demo_opts\<lparr>datasets := ''none.h5''\<rparr>), NewSummaryWriter, ManualSeed 774,
       Print ''===> Loading datasets''],
      Inl (IOError ''none.h5''))"
  using missing_dataset_fails_before_training [of demo_env "demo_opts\<lparr>datasets := ''none.h5''\<rparr>"]
  by (simp add: demo_env_def demo_opts_def)

subsection \<open>Checkpoints at start-up\<close>

text \<open>
  C4. A non-empty \<^verbatim>\<open>--resume\<close> or \<^verbatim>\<open>--pretrained\<close> path that is not a file: the
  block prints its warning and returns normally, with the model and the options
  (so the start epoch) as they were.
\<close>

theorem missing_checkpoint_warns:
  "(resume opt \<noteq> [] \<and> \<not> isfile env (resume opt) \<longrightarrow>
      resume_block env opt m
        = ([Print (''=> no checkpoint found at '' @ quoted (resume opt))], Inr (opt, m))) \<and>
   (pretrained opt \<noteq> [] \<and> \<not> isfile env (pretrained opt) \<longrightarrow>
      pretrained_block env opt m
        = ([Print (''=> no model found at '' @ quoted (pretrained opt))], Inr m))"
  by (simp add: resume_block_def pretrained_block_def run_simps return_def)

theorem missing_checkpoint_warns_witness:
  "resume_block demo_env (demo_opts\<lparr>resume := ''gone.pth''\<rparr>) demo_model
     = ([Print (''=> no checkpoint found at '' @ quoted ''gone.pth'')], Inr (demo_opts\<lparr>resume := ''gone.pth''\<rparr>, demo_model)) \<and>
   pretrained_block demo_env (demo_opts\<lparr>pretrained := ''gone.pth''\<rparr>) demo_model
     = ([Print (''=> no model found at '' @ quoted ''gone.pth'')], Inr demo_model)"
  using missing_checkpoint_warns [of "demo_opts\<lparr>resume := ''gone.pth''\<rparr>" demo_env demo_model]
    missing_checkpoint_warns [of "demo_opts\<lparr>pretrained := ''gone.pth''\<rparr>" demo_env demo_model]
  by (simp add: demo_env_def demo_opts_def)

text \<open>
  C1. \<^verbatim>\<open>--resume\<close> names a file holding a dictionary whose \<^verbatim>\<open>"epoch"\<close> is the
  integer \<open>e\<close>. If its \<^verbatim>\<open>"state_dict"\<close> is a parameter mapping that fits the model,
  the resume block makes it the model's parameters and sets the start epoch to
  \<open>e + 1\<close>. Whatever happens later, the epochs the run enters are an initial part of
  \<open>e + 1, ..., nEpochs\<close>, and all of them when the run ends normally: the first epoch
  executed is \<open>e + 1\<close>.
\<close>

theorem resume_loads_and_advances:
  assumes "resume opt \<noteq> []" and "isfile env (resume opt)"
    and "torch_load env (resume opt) = Inr (PDict d)"
    and "map_of d ''epoch'' = Some (PInt e)"
  shows "(map_of d ''state_dict'' = Some (PParams w) \<and> fits env (params m) w \<longrightarrow>
      resume_block env opt m =
        ([Print (''=> loading checkpoint '' @ quoted (resume opt))],
         Inr (opt\<lparr>start_epoch := e + 1\<rparr>, m\<lparr>params := w\<rparr>))) \<and>
    prefix (epochs_entered (fst (main env opt))) [e + 1..nEpochs opt] \<and>
    (\<not> isl (snd (main env opt)) \<longrightarrow>
      epochs_entered (fst (main env opt)) = [e + 1..nEpochs opt])"
proof -
  have block: "resume_block env opt m =
        ([Print (''=> loading checkpoint '' @ quoted (resume opt))],
         Inr (opt\<lparr>start_epoch := e + 1\<rparr>, m\<lparr>params := w\<rparr>))"
    if "map_of d ''state_dict'' = Some (PParams w)" "fits env (params m) w"
    using that by (simp add: resume_block_loaded [OF assms] load_state_dict_def)
  have run: "prefix (epochs_entered (fst (main env opt))) [e + 1..nEpochs opt] \<and>
    (\<not> isl (snd (main env opt)) \<longrightarrow>
      epochs_entered (fst (main env opt)) = [e + 1..nEpochs opt])"
  proof (cases "snd (initialise env opt)")
    case (Inl err)
    then have "isl (snd (initialise env opt))" by simp
    from main_after_failed_initialise [OF this] show ?thesis by simp
  next
    case (Inr r)
    obtain opt1 ld m3 optimizer where r: "r = (opt1, ld, m3, optimizer)"
      by (cases r) auto
    from Inr r have init: "snd (initialise env opt) = Inr (opt1, ld, m3, optimizer)" by simp
    from initialise_opts [OF init] obtain w0 m1 where
      rb: "snd (resume_block env opt \<lparr>params = w0, training = True, placed = Cpu\<rparr>) = Inr (opt1, m1)"
      by blast
    have opt1: "opt1 = opt\<lparr>start_epoch := e + 1\<rparr>"
      using rb by (simp add: resume_block_loaded [OF assms] split: option.splits sum.splits)
    show ?thesis
      using main_after_initialise [OF init]
        for_epochs_entered [of env opt1 ld 0 "[start_epoch opt1..nEpochs opt1]" "(m3, optimizer)"]
      by (simp add: opt1)
  qed
  from block run show ?thesis by blast
qed

theorem resume_loads_and_advances_witness:
  "resume_block demo_env (demo_opts\<lparr>resume := ''ckpt.pth'', nEpochs := 5\<rparr>) demo_model =
     ([Print (''=> loading checkpoint '' @ quoted ''ckpt.pth'')],
      Inr (demo_opts\<lparr>resume := ''ckpt.pth'', nEpochs := 5, start_epoch := 4\<rparr>,
           demo_model\<lparr>params := 7\<rparr>)) \<and>
   epochs_entered (fst (main demo_env (demo_opts\<lparr>resume := ''ckpt.pth'', nEpochs := 5\<rparr>))) = [4, 5]"
proof -
  let ?opt = "demo_opts\<lparr>resume := ''ckpt.pth'', nEpochs := 5\<rparr>"
  let ?opt1 = "demo_opts\<lparr>resume := ''ckpt.pth'', nEpochs := 5, start_epoch := 4\<rparr>"
  have run: "snd (main demo_env ?opt) =
      snd (for_epochs demo_env ?opt1 demo_loader 0 [start_epoch ?opt1..nEpochs ?opt1]
        (\<lparr>params = 7, training = True, placed = Cpu\<rparr>, \<lparr>opt_lr = 1, opt_state = 0\<rparr>))"
    by (rule main_after_initialise [OF demo_initialise_resumed, THEN conjunct1])
  have ok: "\<not> isl (snd (main demo_env ?opt))"
    unfolding run
    by (rule for_epochs_succeeds [OF demo_updates_succeed])
      (simp add: demo_opts_def demo_batches_fit)
  have "[4..5] = [4, 5::int]" by (simp add: upto_rec1)
  with ok show ?thesis
    using resume_loads_and_advances [where opt = ?opt and env = demo_env
        and d = "[(''epoch'', PInt 3), (''state_dict'', PParams 7)]" and e = 3 and w = 7
        and m = demo_model]
    by (simp add: demo_env_def demo_opts_def demo_model_def)
qed

text \<open>
  C10. When \<^verbatim>\<open>--resume\<close> names a file, the value of \<^verbatim>\<open>--start-epoch\<close> has no
  effect: the resume block, the outcome of the run and the epochs it enters are the same
  for any two values, and a start epoch that the block returns is the checkpoint's epoch
  plus one. The flag's value is kept when \<^verbatim>\<open>--resume\<close> is empty or names no file.
\<close>

theorem start_epoch_flag_overwritten:
  "(resume opt \<noteq> [] \<and> isfile env (resume opt) \<longrightarrow>
      resume_block env (opt\<lparr>start_epoch := a\<rparr>) m = resume_block env (opt\<lparr>start_epoch := b\<rparr>) m \<and>
      snd (main env (opt\<lparr>start_epoch := a\<rparr>)) = snd (main env (opt\<lparr>start_epoch := b\<rparr>)) \<and>
      epochs_entered (fst (main env (opt\<lparr>start_epoch := a\<rparr>)))
        = epochs_entered (fst (main env (opt\<lparr>start_epoch := b\<rparr>))) \<and>
      (\<forall>opt1 m1. snd (resume_block env (opt\<lparr>start_epoch := a\<rparr>) m) = Inr (opt1, m1) \<longrightarrow>
         (\<exists>d e. torch_load env (resume opt) = Inr (PDict d) \<and> map_of d ''epoch'' = Some (PInt e) \<and>
            start_epoch opt1 = e + 1))) \<and>
   (resume opt = [] \<or> \<not> isfile env (resume opt) \<longrightarrow>
      snd (resume_block env (opt\<lparr>start_epoch := a\<rparr>) m) = Inr (opt\<lparr>start_epoch := a\<rparr>, m))"
proof -
  have loaded: "\<exists>d e. torch_load env (resume opt) = Inr (PDict d) \<and>
      map_of d ''epoch'' = Some (PInt e) \<and> start_epoch opt1 = e + 1"
    if "resume opt \<noteq> []" "isfile env (resume opt)"
      "snd (resume_block env (opt\<lparr>start_epoch := a\<rparr>) m) = Inr (opt1, m1)" for opt1 m1
    using that
    by (auto simp add: resume_block_def snd_and_then snd_simps subscript_def plus_one_def
        split: sum.splits pyval.splits option.splits)
  have kept: "snd (resume_block env (opt\<lparr>start_epoch := a\<rparr>) m) = Inr (opt\<lparr>start_epoch := a\<rparr>, m)"
    if "resume opt = [] \<or> \<not> isfile env (resume opt)"
    using that by (auto simp add: resume_block_def snd_and_then snd_simps)
  from loaded kept resume_block_ignores_start_epoch [of opt env a m b]
    main_ignores_start_epoch [of opt env a b]
  show ?thesis by blast
qed

theorem start_epoch_flag_overwritten_witness:
  "resume_block demo_env (demo_opts\<lparr>resume := ''ckpt.pth'', start_epoch := 100\<rparr>) demo_model
     = resume_block demo_env (demo_opts\<lparr>resume := ''ckpt.pth'', start_epoch := 1\<rparr>) demo_model \<and>
   snd (resume_block demo_env (demo_opts\<lparr>resume := ''ckpt.pth'', start_epoch := 100\<rparr>) demo_model)
     = Inr (demo_opts\<lparr>resume := ''ckpt.pth'', start_epoch := 4\<rparr>, demo_model\<lparr>params := 7\<rparr>) \<and>
   snd (resume_block demo_env (demo_opts\<lparr>start_epoch := 100\<rparr>) demo_model)
     = Inr (demo_opts\<lparr>start_epoch := 100\<rparr>, demo_model)"
proof -
  have loaded: "snd (resume_block demo_env (demo_opts\<lparr>resume := ''ckpt.pth'', start_epoch := 100\<rparr>) demo_model)
     = Inr (demo_opts\<lparr>resume := ''ckpt.pth'', start_epoch := 4\<rparr>, demo_model\<lparr>params := 7\<rparr>)"
    by (simp add: resume_block_def demo_env_def demo_opts_def demo_model_def snd_and_then
        snd_simps subscript_def plus_one_def load_state_dict_def)
  show ?thesis
    using start_epoch_flag_overwritten [where opt = "demo_opts\<lparr>resume := ''ckpt.pth''\<rparr>"
        and env = demo_env and a = 100 and b = 1 and m = demo_model]
      start_epoch_flag_overwritten [where opt = demo_opts
        and env = demo_env and a = 100 and b = 1 and m = demo_model] loaded
    by (simp add: demo_env_def demo_opts_def)
qed

text \<open>
  C7. \<^verbatim>\<open>--pretrained\<close> names a file holding a dictionary with a \<^verbatim>\<open>"state_dict"\<close>
  entry \<open>v\<close>. The pretrained block loads the \<^verbatim>\<open>state_dict()\<close> of \<open>v\<close>, so \<open>v\<close>
  has to be a module object; the resume block, on the same file, loads \<open>v\<close> itself, so
  there \<open>v\<close> has to be a parameter mapping, and each block raises on the shape the
  other accepts. The pretrained block changes the parameters of the model and nothing
  else: without \<^verbatim>\<open>--resume\<close> the options reach the loop as they were parsed, and the
  optimiser is the fresh Adam of line 90.
\<close>

theorem pretrained_reads_nested_module:
  assumes "pretrained opt \<noteq> []" and "isfile env (pretrained opt)"
    and "torch_load env (pretrained opt) = Inr (PDict d)"
    and "map_of d ''state_dict'' = Some v"
  shows "pretrained_block env opt m =
      ([Print (''=> loading model '' @ quoted (pretrained opt))],
       case v of
         PModule w \<Rightarrow> if fits env (params m) w then Inr (m\<lparr>params := w\<rparr>) else Inl RuntimeError
       | _ \<Rightarrow> Inl AttributeError) \<and>
    (resume opt' = pretrained opt \<and> map_of d ''epoch'' = Some (PInt e) \<longrightarrow>
       resume_block env opt' m =
         ([Print (''=> loading checkpoint '' @ quoted (resume opt'))],
          case v of
            PParams w \<Rightarrow>
              if fits env (params m) w then Inr (opt'\<lparr>start_epoch := e + 1\<rparr>, m\<lparr>params := w\<rparr>)
              else Inl RuntimeError
          | _ \<Rightarrow> Inl AttributeError)) \<and>
    (resume opt = [] \<longrightarrow>
       (\<forall>opt1 ld m3 optimizer. snd (initialise env opt) = Inr (opt1, ld, m3, optimizer) \<longrightarrow>
          opt1 = opt \<and> optimizer = \<lparr>opt_lr = lr opt, opt_state = Adam env (params m3) (lr opt)\<rparr> \<and>
          (\<exists>w. v = PModule w \<and> params m3 = w)))"
proof -
  have pre: "pretrained_block env opt m =
      ([Print (''=> loading model '' @ quoted (pretrained opt))],
       case v of
         PModule w \<Rightarrow> if fits env (params m) w then Inr (m\<lparr>params := w\<rparr>) else Inl RuntimeError
       | _ \<Rightarrow> Inl AttributeError)" for m
    using assms
    by (cases v)
      (simp_all add: pretrained_block_def and_then_def emit_def call_def subscript_def
        state_dict_def load_state_dict_def)
  have res: "resume_block env opt' m =
         ([Print (''=> loading checkpoint '' @ quoted (resume opt'))],
          case v of
            PParams w \<Rightarrow>
              if fits env (params m) w then Inr (opt'\<lparr>start_epoch := e + 1\<rparr>, m\<lparr>params := w\<rparr>)
              else Inl RuntimeError
          | _ \<Rightarrow> Inl AttributeError)"
    if "resume opt' = pretrained opt" "map_of d ''epoch'' = Some (PInt e)"
    using that assms
    by (cases v)
      (simp_all add: resume_block_def and_then_def emit_def call_def return_def subscript_def
        plus_one_def load_state_dict_def)
  have init: "opt1 = opt \<and> optimizer = \<lparr>opt_lr = lr opt, opt_state = Adam env (params m3) (lr opt)\<rparr> \<and>
          (\<exists>w. v = PModule w \<and> params m3 = w)"
    if "resume opt = []" "snd (initialise env opt) = Inr (opt1, ld, m3, optimizer)"
    for opt1 ld m3 optimizer
    using that
    by (auto simp add: initialise_def snd_and_then snd_simps resume_block_def pre
        split: sum.splits if_splits pyval.splits)
  from pre res init show ?thesis by blast
qed

theorem pretrained_reads_nested_module_witness:
  "pretrained_block demo_env (demo_opts\<lparr>pretrained := ''pre.pth''\<rparr>) demo_model =
      ([Print (''=> loading model '' @ quoted ''pre.pth'')], Inr (demo_model\<lparr>params := 9\<rparr>)) \<and>
   resume_block demo_env (demo_opts\<lparr>resume := ''pre.pth''\<rparr>) demo_model =
      ([Print (''=> loading checkpoint '' @ quoted ''pre.pth'')], Inl AttributeError)"
proof -
  let ?opt = "demo_opts\<lparr>pretrained := ''pre.pth''\<rparr>"
  let ?d = "[(''epoch'', PInt 5), (''state_dict'', PModule 9)] :: (string \<times> nat pyval) list"
  have named: "pretrained ?opt \<noteq> []" by simp
  have isf: "isfile demo_env (pretrained ?opt)" by (simp add: demo_env_def)
  have loaded: "torch_load demo_env (pretrained ?opt) = Inr (PDict ?d)"
    by (simp add: demo_env_def)
  have entry: "map_of ?d ''state_dict'' = Some (PModule 9)" by simp
  have fit: "fits demo_env (params demo_model) 9" by (simp add: demo_env_def)
  note inst = pretrained_reads_nested_module [OF named isf loaded entry,
      where m = demo_model and opt' = "demo_opts\<lparr>resume := ''pre.pth''\<rparr>" and e = 5]
  from inst have "pretrained_block demo_env ?opt demo_model =
      ([Print (''=> loading model '' @ quoted (pretrained ?opt))],
       if fits demo_env (params demo_model) 9 then Inr (demo_model\<lparr>params := 9\<rparr>)
       else Inl RuntimeError)"
    by simp
  moreover from inst have "resume_block demo_env (demo_opts\<lparr>resume := ''pre.pth''\<rparr>) demo_model =
      ([Print (''=> loading checkpoint '' @ quoted ''pre.pth'')], Inl AttributeError)"
    by simp
  ultimately show ?thesis by (simp add: fit)
qed

subsection \<open>The batch\<close>

text \<open>
  C9. The input is \<^verbatim>\<open>batch[0]\<close> and the label is the batch at the truncated square
  root of the rate: index 1 for the rates 2 and 3, index 2 for the rate 4, so the rates
  2 and 3 take the same label; for every rate below \<open>2 ^ 52\<close> the index is the floor of
  the exact square root. The pair is what the update of the batch receives.
\<close>

theorem label_at_int_sqrt_rate:
  "(0 \<le> r \<and> r < 2 ^ 52 \<and> nat \<lfloor>sqrt (real_of_int r)\<rfloor> < length batch \<longrightarrow>
      input_label env r batch = Inr (batch ! 0, batch ! nat \<lfloor>sqrt (real_of_int r)\<rfloor>)) \<and>
   (1 < length batch \<longrightarrow> input_label env 2 batch = Inr (batch ! 0, batch ! 1)) \<and>
   (1 < length batch \<longrightarrow> input_label env 3 batch = Inr (batch ! 0, batch ! 1)) \<and>
   (2 < length batch \<longrightarrow> input_label env 4 batch = Inr (batch ! 0, batch ! 2)) \<and>
   input_label env 2 batch = input_label env 3 batch \<and>
   (input_label env (rate opt) batch = Inr (x, y) \<longrightarrow>
      snd (train_batches env opt n epoch iteration [batch] (m, optimizer))
        = (case batch_update env (cuda opt) m optimizer x y of
             Inl e \<Rightarrow> Inl e
           | Inr (w, s, loss) \<Rightarrow> Inr (m\<lparr>params := w\<rparr>, optimizer\<lparr>opt_state := s\<rparr>)))"
proof -
  have general: "input_label env r batch = Inr (batch ! 0, batch ! nat \<lfloor>sqrt (real_of_int r)\<rfloor>)"
    if "0 \<le> r" and "r < 2 ^ 52" and "nat \<lfloor>sqrt (real_of_int r)\<rfloor> < length batch"
  proof -
    have "sqrt_below (nat r) (nat r) = nat \<lfloor>sqrt (real_of_int r)\<rfloor>"
      using that(1) by (simp add: sqrt_below_floor)
    with that show ?thesis
      by (cases batch) (simp_all add: input_label_def item_def int_sqrt_exact)
  qed
  have two: "input_label env 2 batch = Inr (batch ! 0, batch ! 1)" if "1 < length batch"
    using that by (cases batch) (simp_all add: input_label_def item_def int_sqrt_small)
  have three: "input_label env 3 batch = Inr (batch ! 0, batch ! 1)" if "1 < length batch"
    using that by (cases batch) (simp_all add: input_label_def item_def int_sqrt_small)
  have four: "input_label env 4 batch = Inr (batch ! 0, batch ! 2)" if "2 < length batch"
    using that by (cases batch) (simp_all add: input_label_def item_def int_sqrt_small)
  have same: "input_label env 2 batch = input_label env 3 batch"
    by (simp add: input_label_def int_sqrt_small split: sum.splits)
  have used: "snd (train_batches env opt n epoch iteration [batch] (m, optimizer))
        = (case batch_update env (cuda opt) m optimizer x y of
             Inl e \<Rightarrow> Inl e
           | Inr (w, s, loss) \<Rightarrow> Inr (m\<lparr>params := w\<rparr>, optimizer\<lparr>opt_state := s\<rparr>))"
    if "input_label env (rate opt) batch = Inr (x, y)"
    using that by (simp add: snd_and_then snd_simps split: sum.splits prod.splits)
  from general two three four same used show ?thesis by blast
qed

theorem label_at_int_sqrt_rate_witness:
  "(0::int) \<le> 4 \<and> (4::int) < 2 ^ 52 \<and> nat \<lfloor>sqrt (real_of_int 4)\<rfloor> < length [10, 20, 30 :: nat] \<and>
   input_label demo_env 2 [10, 20, 30 :: nat] = Inr (10, 20) \<and>
   input_label demo_env 3 [10, 20, 30 :: nat] = Inr (10, 20) \<and>
   input_label demo_env 4 [10, 20, 30 :: nat] = Inr (10, 30) \<and>
   snd (train_batches demo_env demo_opts 20 1 1 [[10, 20, 30]] (demo_model, \<lparr>opt_lr = 1, opt_state = 0\<rparr>))
     = Inr (demo_model\<lparr>params := 1\<rparr>, \<lparr>opt_lr = 1, opt_state = 1\<rparr>)"
proof -
  note inst = label_at_int_sqrt_rate [where r = 4 and batch = "[10, 20, 30 :: nat]"
      and opt = demo_opts and x = 10 and y = 20 and env = demo_env and n = 20 and epoch = 1
      and iteration = 1 and m = demo_model and optimizer = "\<lparr>opt_lr = 1, opt_state = 0\<rparr>"]
  have r: "rate demo_opts = 2" by (simp add: demo_opts_def)
  have l: "input_label demo_env (rate demo_opts) [10, 20, 30 :: nat] = Inr (10, 20)"
    using inst by (simp add: r)
  show ?thesis
    using inst l by (simp add: demo_env_def demo_model_def demo_opts_def)
qed

subsection \<open>The loop over the epochs\<close>

text \<open>
  C2. The loop of lines 93 and 94 enters the epochs \<open>s, s + 1, ..., n\<close> in this order
  (\<open>n\<close> included) and returns: what it has entered is always an initial part of that
  list, the whole list when it returns normally, and it does return normally when no
  batch raises. With \<open>n < s\<close> it enters no epoch and returns normally. The same holds
  for \<open>main\<close>, with the start epoch that the initialisation leaves in the options.
\<close>

theorem epochs_run_in_order:
  "prefix (epochs_entered (fst (for_epochs env opt ld pass [s..n] st))) [s..n] \<and>
   (\<not> isl (snd (for_epochs env opt ld pass [s..n] st)) \<longrightarrow>
      epochs_entered (fst (for_epochs env opt ld pass [s..n] st)) = [s..n]) \<and>
   (updates_succeed env \<and> batches_fit env (rate opt) ld \<longrightarrow>
      \<not> isl (snd (for_epochs env opt ld pass [s..n] st)) \<and>
      epochs_entered (fst (for_epochs env opt ld pass [s..n] st)) = [s..n]) \<and>
   (n < s \<longrightarrow> for_epochs env opt ld pass [s..n] st = ([], Inr st)) \<and>
   sorted_wrt (<) [s..n] \<and> set [s..n] = {s..n} \<and>
   (snd (initialise env opt0) = Inr (opt, ld, st) \<longrightarrow>
      prefix (epochs_entered (fst (main env opt0))) [start_epoch opt..nEpochs opt0] \<and>
      (\<not> isl (snd (main env opt0)) \<longrightarrow>
         epochs_entered (fst (main env opt0)) = [start_epoch opt..nEpochs opt0]) \<and>
      (updates_succeed env \<and> batches_fit env (rate opt0) ld \<longrightarrow>
         \<not> isl (snd (main env opt0)) \<and>
         epochs_entered (fst (main env opt0)) = [start_epoch opt..nEpochs opt0]) \<and>
      (nEpochs opt0 < start_epoch opt \<longrightarrow>
         snd (main env opt0) = Inr st \<and> epochs_entered (fst (main env opt0)) = []))"
proof -
  let ?loop = "\<lambda>s n. for_epochs env opt ld pass [s..n] st"
  have a: "prefix (epochs_entered (fst (?loop s n))) [s..n]"
    and b: "\<not> isl (snd (?loop s n)) \<longrightarrow> epochs_entered (fst (?loop s n)) = [s..n]" for s n
    using for_epochs_entered [of env opt ld pass "[s..n]" st] by simp_all
  have c: "\<not> isl (snd (?loop s n)) \<and> epochs_entered (fst (?loop s n)) = [s..n]"
    if "updates_succeed env \<and> batches_fit env (rate opt) ld" for s n
    using that for_epochs_succeeds [of env opt ld pass "[s..n]" st] b [of s n] by simp
  have d: "?loop s n = ([], Inr st)" if "n < s" for s n
    using that by (simp add: return_def)
  have e: "prefix (epochs_entered (fst (main env opt0))) [start_epoch opt..nEpochs opt0] \<and>
      (\<not> isl (snd (main env opt0)) \<longrightarrow>
         epochs_entered (fst (main env opt0)) = [start_epoch opt..nEpochs opt0]) \<and>
      (updates_succeed env \<and> batches_fit env (rate opt0) ld \<longrightarrow>
         \<not> isl (snd (main env opt0)) \<and>
         epochs_entered (fst (main env opt0)) = [start_epoch opt..nEpochs opt0]) \<and>
      (nEpochs opt0 < start_epoch opt \<longrightarrow>
         snd (main env opt0) = Inr st \<and> epochs_entered (fst (main env opt0)) = [])"
    if init: "snd (initialise env opt0) = Inr (opt, ld, st)"
  proof -
    obtain m optimizer where st: "st = (m, optimizer)" by (cases st)
    from init st have init': "snd (initialise env opt0) = Inr (opt, ld, m, optimizer)" by simp
    from initialise_keeps_flags [OF init']
    have flags: "nEpochs opt = nEpochs opt0" "rate opt = rate opt0" by simp_all
    note run = main_after_initialise [OF init']
    have f: "for_epochs env opt ld 0 [start_epoch opt..nEpochs opt0] st = ([], Inr st)"
      if "nEpochs opt0 < start_epoch opt"
      using that by (simp add: return_def)
    show ?thesis
      using run for_epochs_entered [of env opt ld 0 "[start_epoch opt..nEpochs opt0]" st]
        for_epochs_succeeds [of env opt ld 0 "[start_epoch opt..nEpochs opt0]" st] f
      by (auto simp add: flags st)
  qed
  from a b c d e show ?thesis by simp
qed

theorem epochs_run_in_order_witness:
  "epochs_entered (fst (main demo_env demo_opts)) = [1, 2] \<and>
   \<not> isl (snd (main demo_env demo_opts)) \<and>
   for_epochs demo_env demo_opts demo_loader 0 [3..2] (demo_model, \<lparr>opt_lr = 1, opt_state = 0\<rparr>)
     = ([], Inr (demo_model, \<lparr>opt_lr = 1, opt_state = 0\<rparr>))"
proof -
  have fit: "batches_fit demo_env (rate demo_opts) demo_loader"
    by (simp add: demo_opts_def demo_batches_fit)
  have "[1..2] = [1, 2::int]" by (simp add: upto_rec1)
  then show ?thesis
    using epochs_run_in_order [where env = demo_env and opt = demo_opts and ld = demo_loader
        and pass = 0 and s = 3 and n = 2 and opt0 = demo_opts
        and st = "(demo_model, \<lparr>opt_lr = 1, opt_state = 0\<rparr>)"]
      demo_initialise demo_updates_succeed fit
    by (simp add: demo_opts_def demo_model_def)
qed

text \<open>
  C3. A call of \<open>train\<close> that returns has saved one checkpoint, as its last event,
  with the model as the epoch left it, the rate and the number of the epoch; nothing
  about the losses or the batches is tested. A call that raises has saved none. So the
  epochs of the checkpoints saved are the epochs entered, but for an epoch that raised.
\<close>

theorem checkpoint_saved_every_epoch:
  "(\<forall>m' optimizer'. snd (train env opt pass ld optimizer m epoch) = Inr (m', optimizer') \<longrightarrow>
      (\<exists>evs. fst (train env opt pass ld optimizer m epoch)
           = evs @ [SaveCheckpoint m' (rate opt) epoch] \<and> epochs_saved evs = [])) \<and>
   (isl (snd (train env opt pass ld optimizer m epoch)) \<longrightarrow>
      epochs_saved (fst (train env opt pass ld optimizer m epoch)) = []) \<and>
   (\<not> isl (snd (for_epochs env opt ld pass epochs st)) \<longrightarrow>
      epochs_saved (fst (for_epochs env opt ld pass epochs st)) = epochs \<and>
      epochs_entered (fst (for_epochs env opt ld pass epochs st)) = epochs) \<and>
   prefix (epochs_saved (fst (for_epochs env opt ld pass epochs st)))
     (epochs_entered (fst (for_epochs env opt ld pass epochs st))) \<and>
   length (epochs_entered (fst (for_epochs env opt ld pass epochs st)))
     \<le> Suc (length (epochs_saved (fst (for_epochs env opt ld pass epochs st)))) \<and>
   prefix (epochs_saved (fst (main env opt0))) (epochs_entered (fst (main env opt0))) \<and>
   (\<not> isl (snd (main env opt0)) \<longrightarrow>
      epochs_saved (fst (main env opt0)) = epochs_entered (fst (main env opt0)))"
proof -
  have a: "\<forall>m' optimizer'. snd (train env opt pass ld optimizer m epoch) = Inr (m', optimizer') \<longrightarrow>
      (\<exists>evs. fst (train env opt pass ld optimizer m epoch)
           = evs @ [SaveCheckpoint m' (rate opt) epoch] \<and> epochs_saved evs = [])"
    using train_ends_with_save by blast
  have b: "isl (snd (train env opt pass ld optimizer m epoch)) \<longrightarrow>
      epochs_saved (fst (train env opt pass ld optimizer m epoch)) = []"
    by (auto simp add: train_saved split: sum.splits)
  note c = for_epochs_saved [of env opt ld pass epochs st]
    for_epochs_entered [of env opt ld pass epochs st]
  have d: "prefix (epochs_saved (fst (main env opt0))) (epochs_entered (fst (main env opt0))) \<and>
   (\<not> isl (snd (main env opt0)) \<longrightarrow>
      epochs_saved (fst (main env opt0)) = epochs_entered (fst (main env opt0)))"
  proof (cases "snd (initialise env opt0)")
    case (Inl err)
    then have "isl (snd (initialise env opt0))" by simp
    from main_after_failed_initialise [OF this] show ?thesis by simp
  next
    case (Inr r)
    obtain opt1 ld1 m1 o1 where r: "r = (opt1, ld1, m1, o1)" by (cases r) auto
    from Inr r have init: "snd (initialise env opt0) = Inr (opt1, ld1, m1, o1)" by simp
    show ?thesis
      using main_after_initialise [OF init]
        for_epochs_saved [of env opt1 ld1 0 "[start_epoch opt1..nEpochs opt1]" "(m1, o1)"]
        for_epochs_entered [of env opt1 ld1 0 "[start_epoch opt1..nEpochs opt1]" "(m1, o1)"]
      by simp
  qed
  from a b c d show ?thesis by simp
qed

theorem checkpoint_saved_every_epoch_witness:
  "epochs_saved (fst (main demo_env demo_opts)) = [1, 2] \<and>
   epochs_entered (fst (main demo_env demo_opts)) = [1, 2]"
proof -
  let ?st = "(\<lparr>params = 0, training = True, placed = Cpu\<rparr>, \<lparr>opt_lr = 1, opt_state = 0\<rparr>)
               :: nat model \<times> (nat, nat) optimizer"
  have fit: "batches_fit demo_env (rate demo_opts) demo_loader"
    by (simp add: demo_opts_def demo_batches_fit)
  note run = main_after_initialise [OF demo_initialise]
  have ok: "\<not> isl (snd (for_epochs demo_env demo_opts demo_loader 0
                [start_epoch demo_opts..nEpochs demo_opts] ?st))"
    by (rule for_epochs_succeeds [OF demo_updates_succeed fit])
  have range: "[start_epoch demo_opts..nEpochs demo_opts] = [1, 2]"
    by (simp add: demo_opts_def upto_rec1)
  show ?thesis
    using checkpoint_saved_every_epoch [where env = demo_env and opt = demo_opts
        and ld = demo_loader and pass = 0 and epochs = "[start_epoch demo_opts..nEpochs demo_opts]"
        and st = ?st and opt0 = demo_opts and optimizer = "\<lparr>opt_lr = 1, opt_state = 0\<rparr>"
        and m = demo_model and epoch = 1] run ok
    by (simp add: range)
qed

subsection \<open>Logging\<close>

text \<open>
  C6. In an epoch, \<open>train\<close> logs to the stream \<^verbatim>\<open>loss\<close> at the iterations divisible
  by 10 and at no other, each once, with the step \<^verbatim>\<open>len(training_data_loader) * epoch +
  iteration\<close>: the scalars of a call that returns are \<open>expected_scalars\<close>, those of a
  call that raises an initial part of them. The value logged at an iteration is the loss
  that \<open>batch_update\<close> returned for the batch of that iteration: batch by batch, and
  over the epoch, where the values are those of \<open>batch_losses\<close>, one for every batch
  when the call returns. When the loader yields \<^verbatim>\<open>len(training_data_loader)\<close> batches in
  every pass, as a \<^verbatim>\<open>DataLoader\<close> does, the steps of all the scalars of a run increase
  strictly, across the epochs too.
\<close>

theorem loss_logged_every_tenth_iteration:
  "prefix (scalars (fst (train env opt pass ld optimizer m epoch)))
     (expected_scalars (dl_len ld) epoch 1 (length (dl_batches ld pass))) \<and>
   (\<not> isl (snd (train env opt pass ld optimizer m epoch)) \<longrightarrow>
      scalars (fst (train env opt pass ld optimizer m epoch))
        = expected_scalars (dl_len ld) epoch 1 (length (dl_batches ld pass))) \<and>
   ((name, s) \<in> set (expected_scalars n epoch 1 k) \<longleftrightarrow>
      name = ''loss'' \<and> (\<exists>i. 1 \<le> i \<and> i \<le> int k \<and> i mod 10 = 0 \<and> s = int n * epoch + i)) \<and>
   sorted_wrt (<) (map snd (expected_scalars n epoch 1 k)) \<and>
   ((\<forall>opt1 ld1 st1. snd (initialise env parsed) = Inr (opt1, ld1, st1) \<longrightarrow> loader_ok ld1) \<longrightarrow>
      sorted_wrt (<) (map snd (scalars (fst (main env parsed))))) \<and>
   scalar_events (fst (train env opt pass ld optimizer m epoch))
     = expected_events (dl_len ld) epoch 1
         (batch_losses env opt (dl_batches ld pass) (m\<lparr>training := True\<rparr>, optimizer)) \<and>
   (\<not> isl (snd (train env opt pass ld optimizer m epoch)) \<longrightarrow>
      length (batch_losses env opt (dl_batches ld pass) (m\<lparr>training := True\<rparr>, optimizer))
        = length (dl_batches ld pass)) \<and>
   ((name, v, s) \<in> set (expected_events n epoch 1 losses) \<longleftrightarrow>
      name = ''loss'' \<and>
      (\<exists>j < length losses. (1 + int j) mod 10 = 0 \<and>
         s = int n * epoch + (1 + int j) \<and> v = losses ! j)) \<and>
   (input_label env (rate opt) batch = Inr (x, y) \<and>
    batch_update env (cuda opt) m optimizer x y = Inr (w, u, loss) \<longrightarrow>
      scalar_events (fst (train_batches env opt n epoch iteration (batch # rest) (m, optimizer)))
        = (if iteration mod 10 = 0 then [(''loss'', loss, int n * epoch + iteration)] else [])
          @ scalar_events (fst (train_batches env opt n epoch (iteration + 1) rest
              (m\<lparr>params := w\<rparr>, optimizer\<lparr>opt_state := u\<rparr>)))) \<and>
   scalars (fst (main env parsed))
     = map (\<lambda>(name, v, s). (name, s)) (scalar_events (fst (main env parsed)))"
proof -
  have run: "sorted_wrt (<) (map snd (scalars (fst (main env parsed))))"
    if ok: "\<forall>opt1 ld1 st1. snd (initialise env parsed) = Inr (opt1, ld1, st1) \<longrightarrow> loader_ok ld1"
  proof (cases "snd (initialise env parsed)")
    case (Inl err)
    then have "isl (snd (initialise env parsed))" by simp
    from main_after_failed_initialise [OF this] show ?thesis by simp
  next
    case (Inr r)
    obtain opt1 ld1 m1 o1 where r: "r = (opt1, ld1, m1, o1)" by (cases r) auto
    from Inr r have init: "snd (initialise env parsed) = Inr (opt1, ld1, m1, o1)" by simp
    with ok have "loader_ok ld1" by blast
    from for_epochs_scalars_sorted [OF this, of "[start_epoch opt1..nEpochs opt1]" env opt1 0 "(m1, o1)"]
      main_after_initialise [OF init]
    show ?thesis by simp
  qed
  have step: "scalar_events (fst (train_batches env opt n epoch iteration (batch # rest) (m, optimizer)))
        = (if iteration mod 10 = 0 then [(''loss'', loss, int n * epoch + iteration)] else [])
          @ scalar_events (fst (train_batches env opt n epoch (iteration + 1) rest
              (m\<lparr>params := w\<rparr>, optimizer\<lparr>opt_state := u\<rparr>)))"
    if "input_label env (rate opt) batch = Inr (x, y) \<and>
        batch_update env (cuda opt) m optimizer x y = Inr (w, u, loss)"
    using that train_batches_step [of env opt batch x y m optimizer w u loss n epoch iteration rest]
    by blast
  have len: "length (batch_losses env opt (dl_batches ld pass) (m\<lparr>training := True\<rparr>, optimizer))
        = length (dl_batches ld pass)"
    if "\<not> isl (snd (train env opt pass ld optimizer m epoch))"
    using that by (rule train_losses_length)
  note c1 = train_scalars [of env opt pass ld optimizer m epoch, THEN conjunct1]
  note c2 = train_scalars [of env opt pass ld optimizer m epoch, THEN conjunct2]
  note c3 = expected_scalars_mem [of name s n epoch k]
  note c4 = expected_scalars_sorted [of n epoch 1 k]
  from run have c5: "(\<forall>opt1 ld1 st1. snd (initialise env parsed) = Inr (opt1, ld1, st1) \<longrightarrow> loader_ok ld1) \<longrightarrow>
      sorted_wrt (<) (map snd (scalars (fst (main env parsed))))" by (rule impI)
  note c6 = train_events [of env opt pass ld optimizer m epoch]
  from len have c7: "\<not> isl (snd (train env opt pass ld optimizer m epoch)) \<longrightarrow>
      length (batch_losses env opt (dl_batches ld pass) (m\<lparr>training := True\<rparr>, optimizer))
        = length (dl_batches ld pass)" by (rule impI)
  note c8 = expected_events_mem_from [of name v s n epoch 1 losses]
  from step have c9: "input_label env (rate opt) batch = Inr (x, y) \<and>
    batch_update env (cuda opt) m optimizer x y = Inr (w, u, loss) \<longrightarrow>
      scalar_events (fst (train_batches env opt n epoch iteration (batch # rest) (m, optimizer)))
        = (if iteration mod 10 = 0 then [(''loss'', loss, int n * epoch + iteration)] else [])
          @ scalar_events (fst (train_batches env opt n epoch (iteration + 1) rest
              (m\<lparr>params := w\<rparr>, optimizer\<lparr>opt_state := u\<rparr>)))" by (rule impI)
  note c10 = scalars_of_events [of "fst (main env parsed)"]
  show ?thesis
    by (intro conjI c1 c2 c3 c4 c5 c6 c7 c8 c9 c10)
qed

theorem loss_logged_every_tenth_iteration_witness:
  "scalar_events (fst (train demo_env demo_opts 0 demo_loader \<lparr>opt_lr = 1, opt_state = 0\<rparr> demo_model 1))
     = [(''loss'', 10, 30), (''loss'', 20, 40)] \<and>
   scalars (fst (train demo_env demo_opts 0 demo_loader \<lparr>opt_lr = 1, opt_state = 0\<rparr> demo_model 1))
     = [(''loss'', 30), (''loss'', 40)] \<and>
   ((''loss'', 30) \<in> set (expected_scalars 20 1 1 20)) \<and>
   sorted_wrt (<) (map snd (scalars (fst (main demo_env demo_opts))))"
proof -
  let ?o = "\<lparr>opt_lr = 1, opt_state = 0\<rparr> :: (nat, nat) optimizer"
  have fit: "batches_fit demo_env (rate demo_opts) demo_loader"
    by (simp add: demo_opts_def demo_batches_fit)
  have ok: "\<not> isl (snd (train demo_env demo_opts 0 demo_loader ?o demo_model 1))"
    by (rule train_succeeds [OF demo_updates_succeed fit])
  have ex: "expected_scalars 20 1 1 20 = [(''loss'', 30), (''loss'', 40)]"
    by (simp add: expected_scalars_def upto_rec1)
  have len: "dl_len demo_loader = 20" "length (dl_batches demo_loader 0) = 20"
    by (simp_all add: demo_loader_def)
  have loaders: "\<forall>opt1 ld1 st1. snd (initialise demo_env demo_opts) = Inr (opt1, ld1, st1) \<longrightarrow>
      loader_ok ld1"
    by (simp add: demo_initialise demo_loader_ok)
  have ten: "\<exists>i::int. 1 \<le> i \<and> i \<le> 20 \<and> i mod 10 = 0 \<and> (30::int) = 20 * 1 + i"
    by (rule exI [of _ 10]) simp
  have losses: "batch_losses demo_env demo_opts (dl_batches demo_loader 0)
      (demo_model\<lparr>training := True\<rparr>, ?o)
      = [1, 2, 3, 4, 5, 6, 7, 8, 9, 10, 11, 12, 13, 14, 15, 16, 17, 18, 19, 20]"
    by (simp add: demo_loader_def demo_batch_losses demo_model_def upt_rec)
  have exv: "expected_events 20 1 1 [1, 2, 3, 4, 5, 6, 7, 8, 9, 10, 11, 12, 13, 14, 15, 16, 17, 18, 19, 20 :: nat]
      = [(''loss'', 10, 30), (''loss'', 20, 40)]"
    by (simp add: expected_events_def upto_rec1)
  note inst = loss_logged_every_tenth_iteration [where env = demo_env and opt = demo_opts
        and pass = 0 and ld = demo_loader and optimizer = ?o
        and m = demo_model and epoch = 1 and name = "''loss''" and s = 30 and n = 20 and k = 20
        and parsed = demo_opts and v = 10 and losses = "[]" and batch = "[]" and x = 0 and y = 0
        and w = 0 and u = 0 and loss = 0 and iteration = 1 and rest = "[]"]
  note p2 = inst [THEN conjunct2]
  note p3 = p2 [THEN conjunct2]
  note p5 = p3 [THEN conjunct2, THEN conjunct2]
  note p6 = p5 [THEN conjunct2]
  have logged: "scalar_events (fst (train demo_env demo_opts 0 demo_loader ?o demo_model 1))
      = expected_events (dl_len demo_loader) 1 1
          (batch_losses demo_env demo_opts (dl_batches demo_loader 0) (demo_model\<lparr>training := True\<rparr>, ?o))"
    by (rule p6 [THEN conjunct1])
  have steps: "scalars (fst (train demo_env demo_opts 0 demo_loader ?o demo_model 1))
      = expected_scalars (dl_len demo_loader) 1 1 (length (dl_batches demo_loader 0))"
    by (rule p2 [THEN conjunct1, THEN mp, OF ok])
  from ten have "''loss'' = ''loss'' \<and>
      (\<exists>i::int. 1 \<le> i \<and> i \<le> int 20 \<and> i mod 10 = 0 \<and> (30::int) = int 20 * 1 + i)"
    by simp
  then have mem: "(''loss'', 30) \<in> set (expected_scalars 20 1 1 20)"
    by (rule p3 [THEN conjunct1, THEN iffD2])
  have sorted: "sorted_wrt (<) (map snd (scalars (fst (main demo_env demo_opts))))"
    by (rule p5 [THEN conjunct1, THEN mp, OF loaders])
  show ?thesis
    using mem sorted by (simp only: logged steps losses len ex exv)
qed

end
